theory Spec2Isabelle
  imports Main
begin

section \<open>JavaScript values used by the routing core\<close>

text \<open>
  Strings are lists of code units below 256. An optional property or an \<open>undefined\<close>
  value is \<open>None\<close>. A thrown \<open>Error\<close> or \<open>TypeError\<close> is a value carrying its
  message.
\<close>

datatype js_error = Error string | TypeError string

text \<open>
  \<open>String.prototype.trim\<close> removes white space and line terminators from both ends.
  Below 256 these are TAB, LF, VT, FF, CR, SPACE and NBSP.
\<close>

definition isWhiteSpace :: "char \<Rightarrow> bool" where
  "isWhiteSpace c = (of_char c \<in> {9, 10, 11, 12, 13, 32, 160 :: nat})"

definition trim :: "string \<Rightarrow> string" where
  "trim s = rev (dropWhile isWhiteSpace (rev (dropWhile isWhiteSpace s)))"

text \<open>Truthiness of an optional string: \<open>undefined\<close> and the empty string are falsy.\<close>

fun truthy :: "string option \<Rightarrow> bool" where
  "truthy None = False"
| "truthy (Some s) = (s \<noteq> [])"

text \<open>A thread id is \<open>string | number\<close>; the numbers used as thread ids are integers.\<close>

datatype ThreadId = ThreadStr string | ThreadNum int

fun truthyThread :: "ThreadId option \<Rightarrow> bool" where
  "truthyThread None = False"
| "truthyThread (Some (ThreadStr s)) = (s \<noteq> [])"
| "truthyThread (Some (ThreadNum n)) = (n \<noteq> 0)"

section \<open>Delivery target resolution (cron/isolated-agent/delivery-target.ts)\<close>

subsection \<open>Data model\<close>

datatype CronDeliveryMode = ModeOrigin | ModeCurrent

record CronOrigin =
  or_channel :: "string option"
  or_to :: "string option"
  or_accountId :: "string option"
  or_threadId :: "ThreadId option"

record JobPayload =
  jp_channel :: "string option"
  jp_to :: "string option"
  jp_sessionKey :: "string option"

record ResolveOptions =
  opt_origin :: "CronOrigin option"
  opt_deliveryMode :: "CronDeliveryMode option"

text \<open>
  Modelled from the spec: the \<open>SessionEntry\<close> type of config/sessions/types.ts is not
  among the sources. The spec's data model gives it the fields \<open>lastChannel\<close>,
  \<open>lastTo\<close>, \<open>lastAccountId\<close> and \<open>lastThreadId\<close> next to bookkeeping that the
  resolver never reads.
\<close>

record SessionEntry =
  se_lastChannel :: "string option"
  se_lastTo :: "string option"
  se_lastAccountId :: "string option"
  se_lastThreadId :: "ThreadId option"

text \<open>The argument object and the result of \<open>resolveSessionDeliveryTarget\<close>, as the
  resolver builds the one and reads the other.\<close>

record SessionTargetParams =
  sp_entry :: "SessionEntry option"
  sp_requestedChannel :: string
  sp_explicitTo :: "string option"
  sp_fallbackChannel :: "string option"
  sp_allowMismatchedLastTo :: bool
  sp_mode :: "string option"

record SessionDeliveryTarget =
  sd_channel :: "string option"
  sd_to :: "string option"
  sd_accountId :: "string option"
  sd_threadId :: "ThreadId option"
  sd_threadIdExplicit :: bool
  sd_mode :: string
  sd_lastChannel :: "string option"
  sd_lastTo :: "string option"

text \<open>The argument object of \<open>resolveOutboundTarget\<close>; its result is
  \<open>{ok: true, to}\<close> (\<open>Inr to\<close>) or \<open>{ok: false, error}\<close> (\<open>Inl error\<close>).\<close>

record 'cfg OutboundTargetParams =
  ot_channel :: string
  ot_to :: string
  ot_cfg :: 'cfg
  ot_accountId :: "string option"
  ot_mode :: string

record DeliveryTarget =
  dt_channel :: string
  dt_to :: "string option"
  dt_accountId :: "string option"
  dt_threadId :: "ThreadId option"
  dt_mode :: string
  dt_error :: "js_error option"

text \<open>
  The collaborators that delivery-target.ts imports are parameters of the model:
  the constant \<open>DEFAULT_CHAT_CHANNEL\<close>, the property \<open>cfg.session?.store\<close>, and the
  imported functions under their own names. \<open>resolveMessageChannelSelection\<close> is called
  inside \<open>try\<close>, so it may throw (\<open>Inl\<close>) or yield the \<open>channel\<close> of its selection.
\<close>

record 'cfg Collaborators =
  DEFAULT_CHAT_CHANNEL :: string
  sessionStoreOf :: "'cfg \<Rightarrow> string option"
  resolveAgentMainSessionKey :: "'cfg \<Rightarrow> string \<Rightarrow> string"
  resolveStorePath :: "string option \<Rightarrow> string \<Rightarrow> string"
  loadSessionStore :: "string \<Rightarrow> (string \<rightharpoonup> SessionEntry)"
  resolveMessageChannelSelection :: "'cfg \<Rightarrow> js_error + string"
  resolveSessionDeliveryTarget :: "SessionTargetParams \<Rightarrow> SessionDeliveryTarget"
  resolveOutboundTarget :: "'cfg OutboundTargetParams \<Rightarrow> js_error + string"
  buildChannelAccountBindings :: "'cfg \<Rightarrow> (string \<rightharpoonup> (string \<rightharpoonup> string list))"
  normalizeAgentId :: "string \<Rightarrow> string"

subsection \<open>The resolver\<close>

definition origin :: "ResolveOptions option \<Rightarrow> CronOrigin option" where
  "origin options = (case options of None \<Rightarrow> None | Some opts \<Rightarrow> opt_origin opts)"

definition deliveryMode :: "ResolveOptions option \<Rightarrow> CronDeliveryMode" where
  "deliveryMode options =
     (case options of None \<Rightarrow> ModeOrigin
      | Some opts \<Rightarrow> (case opt_deliveryMode opts of None \<Rightarrow> ModeOrigin | Some m \<Rightarrow> m))"

definition hasExplicitChannel :: "JobPayload \<Rightarrow> bool" where
  "hasExplicitChannel jobPayload =
     (case jp_channel jobPayload of None \<Rightarrow> False | Some c \<Rightarrow> c \<noteq> ''last'')"

definition hasExplicitTo :: "JobPayload \<Rightarrow> bool" where
  "hasExplicitTo jobPayload =
     (case jp_to jobPayload of None \<Rightarrow> False | Some t \<Rightarrow> trim t \<noteq> [])"

definition useOrigin :: "JobPayload \<Rightarrow> ResolveOptions option \<Rightarrow> bool" where
  "useOrigin jobPayload options =
     (deliveryMode options = ModeOrigin \<and>
      (case origin options of None \<Rightarrow> False
       | Some org \<Rightarrow>
           \<not> hasExplicitChannel jobPayload \<and> \<not> hasExplicitTo jobPayload \<and>
           (truthy (or_channel org) \<or> truthy (or_to org))))"

text \<open>\<open>useOrigin && origin?.channel\<close> and \<open>useOrigin && origin?.to\<close>, as values.\<close>

definition originChannel :: "JobPayload \<Rightarrow> ResolveOptions option \<Rightarrow> string option" where
  "originChannel jobPayload options =
     (case origin options of None \<Rightarrow> None
      | Some org \<Rightarrow>
          if useOrigin jobPayload options \<and> truthy (or_channel org) then or_channel org else None)"

definition originTo :: "JobPayload \<Rightarrow> ResolveOptions option \<Rightarrow> string option" where
  "originTo jobPayload options =
     (case origin options of None \<Rightarrow> None
      | Some org \<Rightarrow>
          if useOrigin jobPayload options \<and> truthy (or_to org) then or_to org else None)"

definition requestedChannel :: "JobPayload \<Rightarrow> ResolveOptions option \<Rightarrow> string" where
  "requestedChannel jobPayload options =
     (if hasExplicitChannel jobPayload
      then (case jp_channel jobPayload of Some c \<Rightarrow> c | None \<Rightarrow> ''last'')
      else (case originChannel jobPayload options of Some c \<Rightarrow> c | None \<Rightarrow> ''last''))"

definition explicitTo :: "JobPayload \<Rightarrow> ResolveOptions option \<Rightarrow> string option" where
  "explicitTo jobPayload options =
     (if hasExplicitTo jobPayload then jp_to jobPayload else originTo jobPayload options)"

definition allowMismatchedLastTo :: "JobPayload \<Rightarrow> ResolveOptions option \<Rightarrow> bool" where
  "allowMismatchedLastTo jobPayload options = (requestedChannel jobPayload options = ''last'')"

text \<open>The session entry: the thread session named by the payload's trimmed
  \<open>sessionKey\<close> when the store has it, else the agent's main session.\<close>

definition mainEntry ::
  "'cfg Collaborators \<Rightarrow> 'cfg \<Rightarrow> string \<Rightarrow> JobPayload \<Rightarrow> SessionEntry option" where
  "mainEntry env cfg agentId jobPayload =
     (let mainSessionKey = resolveAgentMainSessionKey env cfg agentId;
          storePath = resolveStorePath env (sessionStoreOf env cfg) agentId;
          store = loadSessionStore env storePath;
          threadSessionKey = map_option trim (jp_sessionKey jobPayload);
          threadEntry =
            (case threadSessionKey of None \<Rightarrow> None
             | Some k \<Rightarrow> if k \<noteq> [] then store k else None)
      in case threadEntry of Some e \<Rightarrow> Some e | None \<Rightarrow> store mainSessionKey)"

definition preliminary ::
  "'cfg Collaborators \<Rightarrow> 'cfg \<Rightarrow> string \<Rightarrow> JobPayload \<Rightarrow> ResolveOptions option
     \<Rightarrow> SessionDeliveryTarget" where
  "preliminary env cfg agentId jobPayload options =
     resolveSessionDeliveryTarget env
       \<lparr> sp_entry = mainEntry env cfg agentId jobPayload,
         sp_requestedChannel = requestedChannel jobPayload options,
         sp_explicitTo = explicitTo jobPayload options,
         sp_fallbackChannel = None,
         sp_allowMismatchedLastTo = allowMismatchedLastTo jobPayload options,
         sp_mode = None \<rparr>"

definition fallbackChannel ::
  "'cfg Collaborators \<Rightarrow> 'cfg \<Rightarrow> string \<Rightarrow> JobPayload \<Rightarrow> ResolveOptions option
     \<Rightarrow> string option" where
  "fallbackChannel env cfg agentId jobPayload options =
     (let prelim = preliminary env cfg agentId jobPayload options
      in if \<not> truthy (sd_channel prelim)
         then (case originChannel jobPayload options of
                 Some c \<Rightarrow> Some c
               | None \<Rightarrow>
                   (case resolveMessageChannelSelection env cfg of
                      Inr c \<Rightarrow> Some c
                    | Inl _ \<Rightarrow>
                        (case sd_lastChannel prelim of
                           Some c \<Rightarrow> Some c
                         | None \<Rightarrow> Some (DEFAULT_CHAT_CHANNEL env))))
         else None)"

definition resolved ::
  "'cfg Collaborators \<Rightarrow> 'cfg \<Rightarrow> string \<Rightarrow> JobPayload \<Rightarrow> ResolveOptions option
     \<Rightarrow> SessionDeliveryTarget" where
  "resolved env cfg agentId jobPayload options =
     (let prelim = preliminary env cfg agentId jobPayload options;
          fb = fallbackChannel env cfg agentId jobPayload options
      in if truthy fb
         then resolveSessionDeliveryTarget env
                \<lparr> sp_entry = mainEntry env cfg agentId jobPayload,
                  sp_requestedChannel = requestedChannel jobPayload options,
                  sp_explicitTo = explicitTo jobPayload options,
                  sp_fallbackChannel = fb,
                  sp_allowMismatchedLastTo = allowMismatchedLastTo jobPayload options,
                  sp_mode = Some (sd_mode prelim) \<rparr>
         else prelim)"

text \<open>\<open>resolved.channel ?? fallbackChannel ?? DEFAULT_CHAT_CHANNEL\<close>\<close>

definition resolvedChannel ::
  "'cfg Collaborators \<Rightarrow> 'cfg \<Rightarrow> string \<Rightarrow> JobPayload \<Rightarrow> ResolveOptions option \<Rightarrow> string" where
  "resolvedChannel env cfg agentId jobPayload options =
     (case sd_channel (resolved env cfg agentId jobPayload options) of
        Some c \<Rightarrow> c
      | None \<Rightarrow>
          (case fallbackChannel env cfg agentId jobPayload options of
             Some c \<Rightarrow> c
           | None \<Rightarrow> DEFAULT_CHAT_CHANNEL env))"

text \<open>The account: the resolved one, else the first account bound to the agent on the
  channel.\<close>

definition resolvedAccountId ::
  "'cfg Collaborators \<Rightarrow> 'cfg \<Rightarrow> string \<Rightarrow> JobPayload \<Rightarrow> ResolveOptions option
     \<Rightarrow> string option" where
  "resolvedAccountId env cfg agentId jobPayload options =
     (let accountId = sd_accountId (resolved env cfg agentId jobPayload options);
          channel = resolvedChannel env cfg agentId jobPayload options
      in if \<not> truthy accountId \<and> channel \<noteq> []
         then (case buildChannelAccountBindings env cfg channel of
                 None \<Rightarrow> accountId
               | Some byAgent \<Rightarrow>
                   (case byAgent (normalizeAgentId env agentId) of
                      None \<Rightarrow> accountId
                    | Some [] \<Rightarrow> accountId
                    | Some (a # _) \<Rightarrow> Some a))
         else accountId)"

text \<open>The thread id guard of lines 159 to 163.\<close>

definition guardedThreadId :: "SessionDeliveryTarget \<Rightarrow> ThreadId option" where
  "guardedThreadId r =
     (if truthyThread (sd_threadId r) \<and>
         (sd_threadIdExplicit r \<or> (truthy (sd_to r) \<and> sd_to r = sd_lastTo r))
      then sd_threadId r else None)"

text \<open>The test of line 58: \<open>useOrigin && origin.channel && origin.to\<close>. When it passes,
  the origin with its channel and its recipient.\<close>

definition directOrigin ::
  "JobPayload \<Rightarrow> ResolveOptions option \<Rightarrow> (string \<times> string \<times> CronOrigin) option" where
  "directOrigin jobPayload options =
     (case (originChannel jobPayload options, originTo jobPayload options, origin options) of
        (Some oc, Some ot, Some org) \<Rightarrow> Some (oc, ot, org)
      | _ \<Rightarrow> None)"

definition resolveDeliveryTarget ::
  "'cfg Collaborators \<Rightarrow> 'cfg \<Rightarrow> string \<Rightarrow> JobPayload \<Rightarrow> ResolveOptions option
     \<Rightarrow> DeliveryTarget" where
  "resolveDeliveryTarget env cfg agentId jobPayload options =
     (case directOrigin jobPayload options of
        Some (oc, ot, org) \<Rightarrow>
          (let docked = resolveOutboundTarget env
                 \<lparr> ot_channel = oc, ot_to = ot, ot_cfg = cfg,
                   ot_accountId = or_accountId org, ot_mode = ''explicit'' \<rparr>
           in \<lparr> dt_channel = oc,
                dt_to = (case docked of Inr t \<Rightarrow> Some t | Inl _ \<Rightarrow> None),
                dt_accountId = or_accountId org,
                dt_threadId = or_threadId org,
                dt_mode = ''explicit'',
                dt_error = (case docked of Inr _ \<Rightarrow> None | Inl e \<Rightarrow> Some e) \<rparr>)
      | None \<Rightarrow>
          (let res = resolved env cfg agentId jobPayload options;
               channel = resolvedChannel env cfg agentId jobPayload options;
               mode = sd_mode res;
               toCandidate = sd_to res;
               accountId = resolvedAccountId env cfg agentId jobPayload options;
               threadId = guardedThreadId res
           in if \<not> truthy toCandidate
              then \<lparr> dt_channel = channel, dt_to = None, dt_accountId = accountId,
                     dt_threadId = threadId, dt_mode = mode, dt_error = None \<rparr>
              else
                (let docked = resolveOutboundTarget env
                       \<lparr> ot_channel = channel,
                         ot_to = (case toCandidate of Some t \<Rightarrow> t | None \<Rightarrow> []),
                         ot_cfg = cfg, ot_accountId = accountId, ot_mode = mode \<rparr>
                 in \<lparr> dt_channel = channel,
                      dt_to = (case docked of Inr t \<Rightarrow> Some t | Inl _ \<Rightarrow> None),
                      dt_accountId = accountId,
                      dt_threadId = threadId,
                      dt_mode = mode,
                      dt_error = (case docked of Inr _ \<Rightarrow> None | Inl e \<Rightarrow> Some e) \<rparr>)))"

section \<open>Channel action dispatch (channels/plugins/message-actions.ts)\<close>

subsection \<open>Data model\<close>

text \<open>
  The action context: \<open>channel\<close>, \<open>action\<close>, whether \<open>toolContext\<close> is set,
  \<open>requesterSenderId\<close>, and the remaining properties (\<open>cfg\<close>, \<open>params\<close>, ...) that
  only a handler reads.
\<close>

record 'p ChannelMessageActionContext =
  ctx_channel :: string
  ctx_action :: string
  ctx_toolContext :: bool
  ctx_requesterSenderId :: "string option"
  ctx_rest :: 'p

text \<open>
  The object a \<open>supportsButtons\<close> or \<open>supportsCards\<close> callback is called with. The
  callers build \<open>{cfg}\<close> (no \<open>channel\<close> property) or hand over their own
  \<open>params: {cfg, channel?}\<close> object; the per-channel queries take the latter as their
  argument.
\<close>

record 'cfg FeatureParams =
  fp_cfg :: 'cfg
  fp_channel :: "string option"

text \<open>A plugin's \<open>actions\<close> adapter; each capability is optional. An awaited handler
  yields its result or rejects.\<close>

record ('cfg, 'p, 'r) ChannelActions =
  listActions :: "('cfg \<Rightarrow> string list) option"
  supportsButtons :: "('cfg FeatureParams \<Rightarrow> bool) option"
  supportsCards :: "('cfg FeatureParams \<Rightarrow> bool) option"
  supportsAction :: "(string \<Rightarrow> bool) option"
  handleAction :: "('p ChannelMessageActionContext \<Rightarrow> js_error + 'r) option"

record ('cfg, 'p, 'r) ChannelPlugin =
  plugin_id :: string
  actions :: "('cfg, 'p, 'r) ChannelActions option"

text \<open>The plugin registry of ./index.js, as the two functions imported from it.\<close>

record ('cfg, 'p, 'r) Registry =
  getChannelPlugin :: "string \<Rightarrow> ('cfg, 'p, 'r) ChannelPlugin option"
  listChannelPlugins :: "('cfg, 'p, 'r) ChannelPlugin list"

text \<open>How a dispatch fails: with an error thrown by the dispatcher itself, or with the
  rejection of the handler it awaited.\<close>

datatype dispatch_failure = Thrown js_error | HandlerRejected js_error

subsection \<open>message-actions.ts\<close>

text \<open>
  \<open>trustedRequesterRequiredByChannel\<close> is an object literal with the one own property
  \<open>discord\<close>, and \<open>trustedRequesterRequiredByChannel[ctx.channel]\<close> reads a property of
  it: the set of actions for \<open>discord\<close>, a member inherited from \<open>Object.prototype\<close>
  for one of its keys (a function, or the prototype itself for \<open>__proto__\<close>), and
  \<open>undefined\<close> for any other channel.
\<close>

definition objectPrototypeKeys :: "string set" where
  "objectPrototypeKeys =
     {''constructor'', ''hasOwnProperty'', ''isPrototypeOf'', ''propertyIsEnumerable'',
      ''toLocaleString'', ''toString'', ''valueOf'', ''__proto__'', ''__defineGetter__'',
      ''__defineSetter__'', ''__lookupGetter__'', ''__lookupSetter__''}"

datatype table_value = ActionSet "string set" | InheritedMember

definition trustedRequesterRequiredByChannel :: "string \<Rightarrow> table_value option" where
  "trustedRequesterRequiredByChannel channel =
     (if channel = ''discord'' then Some (ActionSet {''timeout'', ''kick'', ''ban''})
      else if channel \<in> objectPrototypeKeys then Some InheritedMember
      else None)"

text \<open>
  \<open>Boolean(actions?.has(ctx.action) && ctx.toolContext)\<close>: the optional chain yields
  \<open>undefined\<close> only when \<open>actions\<close> is \<open>undefined\<close>. An inherited member is neither
  \<open>undefined\<close> nor has it a \<open>has\<close> method, so the call throws a \<open>TypeError\<close>, before
  \<open>ctx.toolContext\<close> is looked at.
\<close>

definition requiresTrustedRequesterSender ::
  "'p ChannelMessageActionContext \<Rightarrow> js_error + bool" where
  "requiresTrustedRequesterSender ctx =
     (case trustedRequesterRequiredByChannel (ctx_channel ctx) of
        None \<Rightarrow> Inr False
      | Some (ActionSet acts) \<Rightarrow> Inr (ctx_action ctx \<in> acts \<and> ctx_toolContext ctx)
      | Some InheritedMember \<Rightarrow> Inl (TypeError ''actions?.has is not a function''))"

text \<open>\<open>Set.add\<close> on a set kept in insertion order.\<close>

definition addAction :: "string list \<Rightarrow> string \<Rightarrow> string list" where
  "addAction acts a = (if a \<in> set acts then acts else acts @ [a])"

fun collectActions ::
  "'cfg \<Rightarrow> string list \<Rightarrow> ('cfg, 'p, 'r) ChannelPlugin list \<Rightarrow> string list" where
  "collectActions cfg acts [] = acts"
| "collectActions cfg acts (plugin # rest) =
     (case actions plugin of
        None \<Rightarrow> collectActions cfg acts rest
      | Some a \<Rightarrow>
          (case listActions a of
             None \<Rightarrow> collectActions cfg acts rest
           | Some f \<Rightarrow> collectActions cfg (foldl addAction acts (f cfg)) rest))"

definition listChannelMessageActions :: "('cfg, 'p, 'r) Registry \<Rightarrow> 'cfg \<Rightarrow> string list" where
  "listChannelMessageActions reg cfg =
     collectActions cfg [''send'', ''broadcast''] (listChannelPlugins reg)"

fun anySupportsButtons :: "'cfg \<Rightarrow> ('cfg, 'p, 'r) ChannelPlugin list \<Rightarrow> bool" where
  "anySupportsButtons cfg [] = False"
| "anySupportsButtons cfg (plugin # rest) =
     (if (case actions plugin of
            None \<Rightarrow> False
          | Some a \<Rightarrow>
              (case supportsButtons a of
                 None \<Rightarrow> False
               | Some f \<Rightarrow> f \<lparr> fp_cfg = cfg, fp_channel = None \<rparr>))
      then True else anySupportsButtons cfg rest)"

definition supportsChannelMessageButtons :: "('cfg, 'p, 'r) Registry \<Rightarrow> 'cfg \<Rightarrow> bool" where
  "supportsChannelMessageButtons reg cfg = anySupportsButtons cfg (listChannelPlugins reg)"

definition supportsChannelMessageButtonsForChannel ::
  "('cfg, 'p, 'r) Registry \<Rightarrow> 'cfg FeatureParams \<Rightarrow> bool" where
  "supportsChannelMessageButtonsForChannel reg params =
     (case fp_channel params of
        None \<Rightarrow> False
      | Some channel \<Rightarrow>
          if channel = [] then False
          else (case getChannelPlugin reg channel of
                  None \<Rightarrow> False
                | Some plugin \<Rightarrow>
                    (case actions plugin of
                       None \<Rightarrow> False
                     | Some a \<Rightarrow>
                         (case supportsButtons a of
                            None \<Rightarrow> False
                          | Some f \<Rightarrow> f \<lparr> fp_cfg = fp_cfg params, fp_channel = None \<rparr>))))"

fun anySupportsCards :: "'cfg \<Rightarrow> ('cfg, 'p, 'r) ChannelPlugin list \<Rightarrow> bool" where
  "anySupportsCards cfg [] = False"
| "anySupportsCards cfg (plugin # rest) =
     (if (case actions plugin of
            None \<Rightarrow> False
          | Some a \<Rightarrow>
              (case supportsCards a of
                 None \<Rightarrow> False
               | Some f \<Rightarrow> f \<lparr> fp_cfg = cfg, fp_channel = None \<rparr>))
      then True else anySupportsCards cfg rest)"

definition supportsChannelMessageCards :: "('cfg, 'p, 'r) Registry \<Rightarrow> 'cfg \<Rightarrow> bool" where
  "supportsChannelMessageCards reg cfg = anySupportsCards cfg (listChannelPlugins reg)"

definition supportsChannelMessageCardsForChannel ::
  "('cfg, 'p, 'r) Registry \<Rightarrow> 'cfg FeatureParams \<Rightarrow> bool" where
  "supportsChannelMessageCardsForChannel reg params =
     (case fp_channel params of
        None \<Rightarrow> False
      | Some channel \<Rightarrow>
          if channel = [] then False
          else (case getChannelPlugin reg channel of
                  None \<Rightarrow> False
                | Some plugin \<Rightarrow>
                    (case actions plugin of
                       None \<Rightarrow> False
                     | Some a \<Rightarrow>
                         (case supportsCards a of
                            None \<Rightarrow> False
                          | Some f \<Rightarrow> f \<lparr> fp_cfg = fp_cfg params, fp_channel = None \<rparr>))))"

text \<open>\<open>return await handler(...)\<close>: the handler's result, or its rejection passed on.\<close>

definition awaitHandler :: "js_error + 'r \<Rightarrow> dispatch_failure + 'r option" where
  "awaitHandler outcome =
     (case outcome of Inl e \<Rightarrow> Inl (HandlerRejected e) | Inr r \<Rightarrow> Inr (Some r))"

definition trustedSenderError :: "'p ChannelMessageActionContext \<Rightarrow> js_error" where
  "trustedSenderError ctx =
     Error (''Trusted sender identity is required for '' @ ctx_channel ctx @ '':'' @
            ctx_action ctx @ '' in tool-driven contexts.'')"

text \<open>Lines 79 to 86: the handler of the plugin registered for \<open>ctx.channel\<close>, when it
  has one and supports the action.\<close>

definition primaryHandler ::
  "('cfg, 'p, 'r) Registry \<Rightarrow> 'p ChannelMessageActionContext
     \<Rightarrow> ('p ChannelMessageActionContext \<Rightarrow> js_error + 'r) option" where
  "primaryHandler reg ctx =
     (case getChannelPlugin reg (ctx_channel ctx) of
        None \<Rightarrow> None
      | Some plugin \<Rightarrow>
          (case actions plugin of
             None \<Rightarrow> None
           | Some a \<Rightarrow>
               (case handleAction a of
                  None \<Rightarrow> None
                | Some h \<Rightarrow>
                    (let supported =
                           (case supportsAction a of
                              None \<Rightarrow> True
                            | Some s \<Rightarrow> s (ctx_action ctx))
                     in if supported then Some h else None))))"

text \<open>The body of the fallback loop, lines 91 to 102: the three \<open>continue\<close> guards skip a
  candidate (\<open>None\<close>); otherwise its handler is dispatched to.\<close>

definition candidateHandler ::
  "'p ChannelMessageActionContext \<Rightarrow> ('cfg, 'p, 'r) ChannelPlugin
     \<Rightarrow> ('p ChannelMessageActionContext \<Rightarrow> js_error + 'r) option" where
  "candidateHandler ctx candidate =
     (if plugin_id candidate = ctx_channel ctx then None
      else (case actions candidate of
              None \<Rightarrow> None
            | Some a \<Rightarrow>
                (case handleAction a of
                   None \<Rightarrow> None
                 | Some h \<Rightarrow>
                     (case supportsAction a of
                        None \<Rightarrow> Some h
                      | Some s \<Rightarrow> if \<not> s (ctx_action ctx) then None else Some h))))"

fun fallbackDispatch ::
  "'p ChannelMessageActionContext \<Rightarrow> ('cfg, 'p, 'r) ChannelPlugin list
     \<Rightarrow> dispatch_failure + 'r option" where
  "fallbackDispatch ctx [] = Inr None"
| "fallbackDispatch ctx (candidate # rest) =
     (case candidateHandler ctx candidate of
        None \<Rightarrow> fallbackDispatch ctx rest
      | Some h \<Rightarrow> awaitHandler (h (ctx\<lparr>ctx_channel := plugin_id candidate\<rparr>)))"

text \<open>\<open>!ctx.requesterSenderId?.trim()\<close>\<close>

definition blankSender :: "'p ChannelMessageActionContext \<Rightarrow> bool" where
  "blankSender ctx = (\<not> truthy (map_option trim (ctx_requesterSenderId ctx)))"

definition dispatchChannelMessageAction ::
  "('cfg, 'p, 'r) Registry \<Rightarrow> 'p ChannelMessageActionContext \<Rightarrow> dispatch_failure + 'r option" where
  "dispatchChannelMessageAction reg ctx =
     (case requiresTrustedRequesterSender ctx of
        Inl e \<Rightarrow> Inl (Thrown e)
      | Inr required \<Rightarrow>
          if required \<and> blankSender ctx
          then Inl (Thrown (trustedSenderError ctx))
          else (case primaryHandler reg ctx of
                  Some h \<Rightarrow> awaitHandler (h ctx)
                | None \<Rightarrow> fallbackDispatch ctx (listChannelPlugins reg)))"

subsection \<open>The refactored variant (unnamed/part_005)\<close>

text \<open>The functions of part_005 carry the suffix 005.\<close>

definition trustedRequesterRequiredByChannel005 :: "string \<Rightarrow> table_value option" where
  "trustedRequesterRequiredByChannel005 channel =
     (if channel = ''discord'' then Some (ActionSet {''timeout'', ''kick'', ''ban''})
      else if channel \<in> objectPrototypeKeys then Some InheritedMember
      else None)"

definition requiresTrustedRequesterSender005 ::
  "'p ChannelMessageActionContext \<Rightarrow> js_error + bool" where
  "requiresTrustedRequesterSender005 ctx =
     (case trustedRequesterRequiredByChannel005 (ctx_channel ctx) of
        None \<Rightarrow> Inr False
      | Some (ActionSet acts) \<Rightarrow> Inr (ctx_action ctx \<in> acts \<and> ctx_toolContext ctx)
      | Some InheritedMember \<Rightarrow> Inl (TypeError ''actions?.has is not a function''))"

fun collectActions005 ::
  "'cfg \<Rightarrow> string list \<Rightarrow> ('cfg, 'p, 'r) ChannelPlugin list \<Rightarrow> string list" where
  "collectActions005 cfg acts [] = acts"
| "collectActions005 cfg acts (plugin # rest) =
     (case actions plugin of
        None \<Rightarrow> collectActions005 cfg acts rest
      | Some a \<Rightarrow>
          (case listActions a of
             None \<Rightarrow> collectActions005 cfg acts rest
           | Some f \<Rightarrow> collectActions005 cfg (foldl addAction acts (f cfg)) rest))"

definition listChannelMessageActions005 :: "('cfg, 'p, 'r) Registry \<Rightarrow> 'cfg \<Rightarrow> string list" where
  "listChannelMessageActions005 reg cfg =
     collectActions005 cfg [''send'', ''broadcast''] (listChannelPlugins reg)"

fun anyPluginFeature ::
  "(('cfg, 'p, 'r) ChannelActions \<Rightarrow> bool) \<Rightarrow> ('cfg, 'p, 'r) ChannelPlugin list \<Rightarrow> bool" where
  "anyPluginFeature check [] = False"
| "anyPluginFeature check (plugin # rest) =
     (if (case actions plugin of None \<Rightarrow> False | Some a \<Rightarrow> check a)
      then True else anyPluginFeature check rest)"

definition supportsMessageFeature ::
  "('cfg, 'p, 'r) Registry \<Rightarrow> 'cfg \<Rightarrow> (('cfg, 'p, 'r) ChannelActions \<Rightarrow> bool) \<Rightarrow> bool" where
  "supportsMessageFeature reg cfg check = anyPluginFeature check (listChannelPlugins reg)"

definition supportsMessageFeatureForChannel ::
  "('cfg, 'p, 'r) Registry \<Rightarrow> 'cfg FeatureParams
     \<Rightarrow> (('cfg, 'p, 'r) ChannelActions \<Rightarrow> bool) \<Rightarrow> bool" where
  "supportsMessageFeatureForChannel reg params check =
     (case fp_channel params of
        None \<Rightarrow> False
      | Some channel \<Rightarrow>
          if channel = [] then False
          else (case getChannelPlugin reg channel of
                  None \<Rightarrow> False
                | Some plugin \<Rightarrow>
                    (case actions plugin of None \<Rightarrow> False | Some a \<Rightarrow> check a)))"

definition supportsChannelMessageButtons005 :: "('cfg, 'p, 'r) Registry \<Rightarrow> 'cfg \<Rightarrow> bool" where
  "supportsChannelMessageButtons005 reg cfg =
     supportsMessageFeature reg cfg
       (\<lambda>a. case supportsButtons a of
              None \<Rightarrow> False
            | Some f \<Rightarrow> f \<lparr> fp_cfg = cfg, fp_channel = None \<rparr>)"

definition supportsChannelMessageButtonsForChannel005 ::
  "('cfg, 'p, 'r) Registry \<Rightarrow> 'cfg FeatureParams \<Rightarrow> bool" where
  "supportsChannelMessageButtonsForChannel005 reg params =
     supportsMessageFeatureForChannel reg params
       (\<lambda>a. case supportsButtons a of None \<Rightarrow> False | Some f \<Rightarrow> f params)"

definition supportsChannelMessageCards005 :: "('cfg, 'p, 'r) Registry \<Rightarrow> 'cfg \<Rightarrow> bool" where
  "supportsChannelMessageCards005 reg cfg =
     supportsMessageFeature reg cfg
       (\<lambda>a. case supportsCards a of
              None \<Rightarrow> False
            | Some f \<Rightarrow> f \<lparr> fp_cfg = cfg, fp_channel = None \<rparr>)"

definition supportsChannelMessageCardsForChannel005 ::
  "('cfg, 'p, 'r) Registry \<Rightarrow> 'cfg FeatureParams \<Rightarrow> bool" where
  "supportsChannelMessageCardsForChannel005 reg params =
     supportsMessageFeatureForChannel reg params
       (\<lambda>a. case supportsCards a of None \<Rightarrow> False | Some f \<Rightarrow> f params)"

definition primaryHandler005 ::
  "('cfg, 'p, 'r) Registry \<Rightarrow> 'p ChannelMessageActionContext
     \<Rightarrow> ('p ChannelMessageActionContext \<Rightarrow> js_error + 'r) option" where
  "primaryHandler005 reg ctx =
     (case getChannelPlugin reg (ctx_channel ctx) of
        None \<Rightarrow> None
      | Some plugin \<Rightarrow>
          (case actions plugin of
             None \<Rightarrow> None
           | Some a \<Rightarrow>
               (case handleAction a of
                  None \<Rightarrow> None
                | Some h \<Rightarrow>
                    (let supported =
                           (case supportsAction a of
                              None \<Rightarrow> True
                            | Some s \<Rightarrow> s (ctx_action ctx))
                     in if supported then Some h else None))))"

definition candidateHandler005 ::
  "'p ChannelMessageActionContext \<Rightarrow> ('cfg, 'p, 'r) ChannelPlugin
     \<Rightarrow> ('p ChannelMessageActionContext \<Rightarrow> js_error + 'r) option" where
  "candidateHandler005 ctx candidate =
     (if plugin_id candidate = ctx_channel ctx then None
      else (case actions candidate of
              None \<Rightarrow> None
            | Some a \<Rightarrow>
                (case handleAction a of
                   None \<Rightarrow> None
                 | Some h \<Rightarrow>
                     (case supportsAction a of
                        None \<Rightarrow> Some h
                      | Some s \<Rightarrow> if \<not> s (ctx_action ctx) then None else Some h))))"

fun fallbackDispatch005 ::
  "'p ChannelMessageActionContext \<Rightarrow> ('cfg, 'p, 'r) ChannelPlugin list
     \<Rightarrow> dispatch_failure + 'r option" where
  "fallbackDispatch005 ctx [] = Inr None"
| "fallbackDispatch005 ctx (candidate # rest) =
     (case candidateHandler005 ctx candidate of
        None \<Rightarrow> fallbackDispatch005 ctx rest
      | Some h \<Rightarrow> awaitHandler (h (ctx\<lparr>ctx_channel := plugin_id candidate\<rparr>)))"

definition dispatchChannelMessageAction005 ::
  "('cfg, 'p, 'r) Registry \<Rightarrow> 'p ChannelMessageActionContext \<Rightarrow> dispatch_failure + 'r option" where
  "dispatchChannelMessageAction005 reg ctx =
     (case requiresTrustedRequesterSender005 ctx of
        Inl e \<Rightarrow> Inl (Thrown e)
      | Inr required \<Rightarrow>
          if required \<and> blankSender ctx
          then Inl (Thrown (trustedSenderError ctx))
          else (case primaryHandler005 reg ctx of
                  Some h \<Rightarrow> awaitHandler (h ctx)
                | None \<Rightarrow> fallbackDispatch005 ctx (listChannelPlugins reg)))"

section \<open>Session resolution, from the spec\<close>

text \<open>\<open>entry?.lastChannel\<close>, \<open>entry?.lastTo\<close> and \<open>entry?.lastThreadId\<close> of an
  optional session entry.\<close>

definition entryLastChannel :: "SessionEntry option \<Rightarrow> string option" where
  "entryLastChannel entry = (case entry of None \<Rightarrow> None | Some e \<Rightarrow> se_lastChannel e)"

definition entryLastTo :: "SessionEntry option \<Rightarrow> string option" where
  "entryLastTo entry = (case entry of None \<Rightarrow> None | Some e \<Rightarrow> se_lastTo e)"

definition entryLastThreadId :: "SessionEntry option \<Rightarrow> ThreadId option" where
  "entryLastThreadId entry = (case entry of None \<Rightarrow> None | Some e \<Rightarrow> se_lastThreadId e)"

text \<open>
  Modelled from the spec: \<open>resolveSessionDeliveryTarget\<close> of infra/outbound/targets.ts is
  not among the sources, and the resolver reads \<open>lastChannel\<close> and \<open>lastTo\<close> from its
  result. The spec calls them the session's stored last channel and the session's
  previously stored \<open>to\<close>: they are the \<open>lastChannel\<close> and \<open>lastTo\<close> of the entry
  handed to session resolution. \<open>storedLast\<close> lets any session resolution report these
  two fields so and leaves everything else it returns as it is.
\<close>

definition storedLast ::
  "(SessionTargetParams \<Rightarrow> SessionDeliveryTarget) \<Rightarrow> SessionTargetParams
     \<Rightarrow> SessionDeliveryTarget" where
  "storedLast resolve p =
     (resolve p)\<lparr> sd_lastChannel := entryLastChannel (sp_entry p),
                  sd_lastTo := entryLastTo (sp_entry p) \<rparr>"

text \<open>
  Modelled from the spec: the collaborators with a \<open>resolveSessionDeliveryTarget\<close> (not
  among the sources) that reports the entry's stored \<open>lastChannel\<close> and \<open>lastTo\<close>.
\<close>

definition withStoredLast :: "'cfg Collaborators \<Rightarrow> 'cfg Collaborators" where
  "withStoredLast env =
     env\<lparr>resolveSessionDeliveryTarget := storedLast (resolveSessionDeliveryTarget env)\<rparr>"

text \<open>
  Modelled from the spec: the channels that \<open>resolveSessionDeliveryTarget\<close> (not among
  the sources) considers. The spec's data model has a channel as a concrete channel id:
  the empty string names none.
\<close>

definition concreteChannel :: "string option \<Rightarrow> string option" where
  "concreteChannel c = (case c of None \<Rightarrow> None | Some s \<Rightarrow> if s = [] then None else Some s)"

text \<open>
  Modelled from the spec: \<open>resolveSessionDeliveryTarget\<close> of infra/outbound/targets.ts is
  not among the sources. This function follows step 4 of the spec's algorithm, and step 5
  for the injected fallback: the candidate channel, recipient, account and thread come
  from the entry's \<open>last*\<close> fields; the requested channel is honoured (the stored
  recipient needs the same channel unless \<open>allowMismatchedLastTo\<close>); an explicit
  recipient overrides the stored one; the fallback channel is taken when no other channel
  is found. The mode is the given one, else \<open>explicit\<close> for an explicit recipient and
  \<open>implicit\<close> for one taken from the session.
\<close>

definition sessionTargetFromSpec :: "SessionTargetParams \<Rightarrow> SessionDeliveryTarget" where
  "sessionTargetFromSpec p =
     (let lastChannel = entryLastChannel (sp_entry p);
          lastTo = entryLastTo (sp_entry p);
          lastAccountId = (case sp_entry p of None \<Rightarrow> None | Some e \<Rightarrow> se_lastAccountId e);
          lastThreadId = entryLastThreadId (sp_entry p);
          requested = (if sp_requestedChannel p = ''last'' then lastChannel
                       else Some (sp_requestedChannel p));
          channel = (case concreteChannel requested of
                       Some c \<Rightarrow> Some c
                     | None \<Rightarrow> concreteChannel (sp_fallbackChannel p));
          same = (channel \<noteq> None \<and> channel = lastChannel)
      in \<lparr> sd_channel = channel,
           sd_to = (case sp_explicitTo p of
                      Some t \<Rightarrow> Some t
                    | None \<Rightarrow> if same \<or> sp_allowMismatchedLastTo p then lastTo else None),
           sd_accountId = (if same then lastAccountId else None),
           sd_threadId = (if same then lastThreadId else None),
           sd_threadIdExplicit = False,
           sd_mode = (case sp_mode p of
                        Some m \<Rightarrow> m
                      | None \<Rightarrow> if sp_explicitTo p \<noteq> None then ''explicit'' else ''implicit''),
           sd_lastChannel = lastChannel,
           sd_lastTo = lastTo \<rparr>)"

text \<open>
  Modelled from the spec: the collaborators with \<open>resolveSessionDeliveryTarget\<close> (not
  among the sources) as the spec describes it.
\<close>

definition withSessionTargetFromSpec :: "'cfg Collaborators \<Rightarrow> 'cfg Collaborators" where
  "withSessionTargetFromSpec env = env\<lparr>resolveSessionDeliveryTarget := sessionTargetFromSpec\<rparr>"

section \<open>Example inputs\<close>


text \<open>A session resolution that found the thread id 7 in the recipient it was given and
  flags it as explicit.\<close>

definition exampleSessionTargetExplicit :: "SessionTargetParams \<Rightarrow> SessionDeliveryTarget" where
  "exampleSessionTargetExplicit p =
     (sessionTargetFromSpec p)\<lparr>sd_threadId := Some (ThreadNum 7), sd_threadIdExplicit := True\<rparr>"

text \<open>Example collaborators over a configuration without content: a given session
  store, a given outcome of the channel selection, session resolution as modelled from
  the spec, and a normalizer that trims the recipient and rejects \<open>?\<close>.\<close>

definition exampleCollaborators ::
  "(string \<rightharpoonup> SessionEntry) \<Rightarrow> js_error + string \<Rightarrow> unit Collaborators" where
  "exampleCollaborators store selection =
     \<lparr> DEFAULT_CHAT_CHANNEL = ''whatsapp'',
       sessionStoreOf = (\<lambda>_. None),
       resolveAgentMainSessionKey = (\<lambda>_ agentId. ''agent:'' @ agentId @ '':main''),
       resolveStorePath = (\<lambda>_ agentId. ''sessions/'' @ agentId @ ''.json''),
       loadSessionStore = (\<lambda>_. store),
       resolveMessageChannelSelection = (\<lambda>_. selection),
       resolveSessionDeliveryTarget = sessionTargetFromSpec,
       resolveOutboundTarget =
         (\<lambda>p. if trim (ot_to p) = ''?'' then Inl (Error ''invalid target'')
              else Inr (trim (ot_to p))),
       buildChannelAccountBindings = (\<lambda>_. Map.empty),
       normalizeAgentId = (\<lambda>a. a) \<rparr>"

definition feishuEntry :: SessionEntry where
  "feishuEntry = \<lparr> se_lastChannel = Some ''feishu'', se_lastTo = Some ''oc_1'',
                    se_lastAccountId = None, se_lastThreadId = Some (ThreadStr ''t9'') \<rparr>"

definition feishuStore :: "string \<rightharpoonup> SessionEntry" where
  "feishuStore = [''agent:main:main'' \<mapsto> feishuEntry]"

definition telegramOrigin :: CronOrigin where
  "telegramOrigin = \<lparr> or_channel = Some ''telegram'', or_to = Some ''123'',
                       or_accountId = None, or_threadId = Some (ThreadNum 42) \<rparr>"

definition fromOrigin :: "CronOrigin \<Rightarrow> ResolveOptions option" where
  "fromOrigin org = Some \<lparr> opt_origin = Some org, opt_deliveryMode = None \<rparr>"

definition payload :: "string option \<Rightarrow> string option \<Rightarrow> JobPayload" where
  "payload channel to = \<lparr> jp_channel = channel, jp_to = to, jp_sessionKey = None \<rparr>"

text \<open>Example plugins: a handler that reports who handled which action on which channel.\<close>

definition exampleHandler ::
  "string \<Rightarrow> unit ChannelMessageActionContext \<Rightarrow> js_error + string" where
  "exampleHandler name ctx = Inr (name @ '' did '' @ ctx_action ctx @ '' on '' @ ctx_channel ctx)"

definition examplePlugin ::
  "string \<Rightarrow> (string \<Rightarrow> bool) option \<Rightarrow> bool \<Rightarrow> (unit, unit, string) ChannelPlugin" where
  "examplePlugin name supports hasHandler =
     \<lparr> plugin_id = name,
       actions = Some
         \<lparr> listActions = None, supportsButtons = None, supportsCards = None,
           supportsAction = supports,
           handleAction = (if hasHandler then Some (exampleHandler name) else None) \<rparr> \<rparr>"

text \<open>A plugin whose button and card checks look at the whole argument object.\<close>

definition channelAwarePlugin :: "string \<Rightarrow> (unit, unit, string) ChannelPlugin" where
  "channelAwarePlugin name =
     \<lparr> plugin_id = name,
       actions = Some
         \<lparr> listActions = Some (\<lambda>_. [''send'', ''react'']),
           supportsButtons = Some (\<lambda>params. fp_channel params \<noteq> None),
           supportsCards = Some (\<lambda>params. fp_channel params \<noteq> None),
           supportsAction = None,
           handleAction = None \<rparr> \<rparr>"

text \<open>A plugin whose button and card checks are constant.\<close>

definition buttonPlugin :: "string \<Rightarrow> bool \<Rightarrow> (unit, unit, string) ChannelPlugin" where
  "buttonPlugin name b =
     \<lparr> plugin_id = name,
       actions = Some
         \<lparr> listActions = Some (\<lambda>_. [''send'', ''react'']),
           supportsButtons = Some (\<lambda>_. b),
           supportsCards = Some (\<lambda>_. \<not> b),
           supportsAction = None,
           handleAction = None \<rparr> \<rparr>"

text \<open>A registry that looks a plugin up by its id among the listed ones.\<close>

definition exampleRegistry ::
  "('cfg, 'p, 'r) ChannelPlugin list \<Rightarrow> ('cfg, 'p, 'r) Registry" where
  "exampleRegistry plugins =
     \<lparr> getChannelPlugin = (\<lambda>c. find (\<lambda>p. plugin_id p = c) plugins),
       listChannelPlugins = plugins \<rparr>"

definition exampleContext ::
  "string \<Rightarrow> string \<Rightarrow> bool \<Rightarrow> string option \<Rightarrow> unit ChannelMessageActionContext" where
  "exampleContext channel action tool sender =
     \<lparr> ctx_channel = channel, ctx_action = action, ctx_toolContext = tool,
       ctx_requesterSenderId = sender, ctx_rest = () \<rparr>"

section \<open>Auxiliary facts\<close>

subsection \<open>The resolver, path by path\<close>

lemma directOrigin_SomeD:
  "directOrigin jobPayload options = Some (oc, ot, org) \<Longrightarrow>
   oc \<noteq> [] \<and> ot \<noteq> [] \<and> origin options = Some org \<and> or_channel org = Some oc \<and>
   or_to org = Some ot \<and> useOrigin jobPayload options"
  by (auto simp: directOrigin_def originChannel_def originTo_def
      split: option.splits if_splits)


lemma resolveDeliveryTarget_direct:
  "directOrigin jobPayload options = Some (oc, ot, org) \<Longrightarrow>
   resolveDeliveryTarget env cfg agentId jobPayload options =
     (let docked = resolveOutboundTarget env
            \<lparr> ot_channel = oc, ot_to = ot, ot_cfg = cfg,
              ot_accountId = or_accountId org, ot_mode = ''explicit'' \<rparr>
      in \<lparr> dt_channel = oc,
           dt_to = (case docked of Inr t \<Rightarrow> Some t | Inl _ \<Rightarrow> None),
           dt_accountId = or_accountId org,
           dt_threadId = or_threadId org,
           dt_mode = ''explicit'',
           dt_error = (case docked of Inr _ \<Rightarrow> None | Inl e \<Rightarrow> Some e) \<rparr>)"
  by (simp add: resolveDeliveryTarget_def)

lemma resolveDeliveryTarget_no_candidate:
  "directOrigin jobPayload options = None \<Longrightarrow>
   \<not> truthy (sd_to (resolved env cfg agentId jobPayload options)) \<Longrightarrow>
   resolveDeliveryTarget env cfg agentId jobPayload options =
     \<lparr> dt_channel = resolvedChannel env cfg agentId jobPayload options,
       dt_to = None,
       dt_accountId = resolvedAccountId env cfg agentId jobPayload options,
       dt_threadId = guardedThreadId (resolved env cfg agentId jobPayload options),
       dt_mode = sd_mode (resolved env cfg agentId jobPayload options),
       dt_error = None \<rparr>"
  by (simp add: resolveDeliveryTarget_def Let_def)

lemma resolveDeliveryTarget_candidate:
  "directOrigin jobPayload options = None \<Longrightarrow>
   sd_to (resolved env cfg agentId jobPayload options) = Some cand \<Longrightarrow> cand \<noteq> [] \<Longrightarrow>
   resolveDeliveryTarget env cfg agentId jobPayload options =
     (let docked = resolveOutboundTarget env
            \<lparr> ot_channel = resolvedChannel env cfg agentId jobPayload options,
              ot_to = cand, ot_cfg = cfg,
              ot_accountId = resolvedAccountId env cfg agentId jobPayload options,
              ot_mode = sd_mode (resolved env cfg agentId jobPayload options) \<rparr>
      in \<lparr> dt_channel = resolvedChannel env cfg agentId jobPayload options,
           dt_to = (case docked of Inr t \<Rightarrow> Some t | Inl _ \<Rightarrow> None),
           dt_accountId = resolvedAccountId env cfg agentId jobPayload options,
           dt_threadId = guardedThreadId (resolved env cfg agentId jobPayload options),
           dt_mode = sd_mode (resolved env cfg agentId jobPayload options),
           dt_error = (case docked of Inr _ \<Rightarrow> None | Inl e \<Rightarrow> Some e) \<rparr>)"
  by (simp add: resolveDeliveryTarget_def Let_def)

subsection \<open>A blank recipient override, step by step\<close>

lemma useOrigin_blank:
  "trim t = [] \<Longrightarrow>
   useOrigin (jobPayload\<lparr>jp_to := Some t\<rparr>) options =
   useOrigin (jobPayload\<lparr>jp_to := None\<rparr>) options"
  by (simp add: useOrigin_def hasExplicitTo_def hasExplicitChannel_def split: option.split)

lemma originChannel_blank:
  "trim t = [] \<Longrightarrow>
   originChannel (jobPayload\<lparr>jp_to := Some t\<rparr>) options =
   originChannel (jobPayload\<lparr>jp_to := None\<rparr>) options"
  by (simp add: originChannel_def useOrigin_blank split: option.split)

lemma originTo_blank:
  "trim t = [] \<Longrightarrow>
   originTo (jobPayload\<lparr>jp_to := Some t\<rparr>) options =
   originTo (jobPayload\<lparr>jp_to := None\<rparr>) options"
  by (simp add: originTo_def useOrigin_blank split: option.split)

lemma directOrigin_blank:
  "trim t = [] \<Longrightarrow>
   directOrigin (jobPayload\<lparr>jp_to := Some t\<rparr>) options =
   directOrigin (jobPayload\<lparr>jp_to := None\<rparr>) options"
  by (simp add: directOrigin_def originChannel_blank originTo_blank)

lemma requestedChannel_blank:
  "trim t = [] \<Longrightarrow>
   requestedChannel (jobPayload\<lparr>jp_to := Some t\<rparr>) options =
   requestedChannel (jobPayload\<lparr>jp_to := None\<rparr>) options"
  by (simp add: requestedChannel_def originChannel_blank hasExplicitChannel_def)

lemma explicitTo_blank:
  "trim t = [] \<Longrightarrow>
   explicitTo (jobPayload\<lparr>jp_to := Some t\<rparr>) options =
   explicitTo (jobPayload\<lparr>jp_to := None\<rparr>) options"
  by (simp add: explicitTo_def originTo_blank hasExplicitTo_def)

lemma mainEntry_blank:
  "mainEntry env cfg agentId (jobPayload\<lparr>jp_to := Some t\<rparr>) =
   mainEntry env cfg agentId (jobPayload\<lparr>jp_to := None\<rparr>)"
  by (simp add: mainEntry_def)

lemma preliminary_blank:
  "trim t = [] \<Longrightarrow>
   preliminary env cfg agentId (jobPayload\<lparr>jp_to := Some t\<rparr>) options =
   preliminary env cfg agentId (jobPayload\<lparr>jp_to := None\<rparr>) options"
  by (simp add: preliminary_def requestedChannel_blank explicitTo_blank
      allowMismatchedLastTo_def mainEntry_blank)

lemma fallbackChannel_blank:
  "trim t = [] \<Longrightarrow>
   fallbackChannel env cfg agentId (jobPayload\<lparr>jp_to := Some t\<rparr>) options =
   fallbackChannel env cfg agentId (jobPayload\<lparr>jp_to := None\<rparr>) options"
  by (simp add: fallbackChannel_def preliminary_blank originChannel_blank Let_def
      cong: if_cong option.case_cong)

lemma resolved_blank:
  "trim t = [] \<Longrightarrow>
   resolved env cfg agentId (jobPayload\<lparr>jp_to := Some t\<rparr>) options =
   resolved env cfg agentId (jobPayload\<lparr>jp_to := None\<rparr>) options"
  by (simp add: resolved_def preliminary_blank fallbackChannel_blank requestedChannel_blank
      explicitTo_blank allowMismatchedLastTo_def mainEntry_blank Let_def cong: if_cong)

lemma resolvedChannel_blank:
  "trim t = [] \<Longrightarrow>
   resolvedChannel env cfg agentId (jobPayload\<lparr>jp_to := Some t\<rparr>) options =
   resolvedChannel env cfg agentId (jobPayload\<lparr>jp_to := None\<rparr>) options"
  by (simp add: resolvedChannel_def resolved_blank fallbackChannel_blank
      cong: option.case_cong)

lemma resolvedAccountId_blank:
  "trim t = [] \<Longrightarrow>
   resolvedAccountId env cfg agentId (jobPayload\<lparr>jp_to := Some t\<rparr>) options =
   resolvedAccountId env cfg agentId (jobPayload\<lparr>jp_to := None\<rparr>) options"
  by (simp add: resolvedAccountId_def resolved_blank resolvedChannel_blank Let_def
      cong: if_cong option.case_cong)

subsection \<open>Session resolution that reports the stored fields\<close>

lemma mainEntry_withStoredLast:
  "mainEntry (withStoredLast env) cfg agentId jobPayload = mainEntry env cfg agentId jobPayload"
  by (simp add: mainEntry_def withStoredLast_def)

lemma preliminary_withStoredLast:
  "sd_lastChannel (preliminary (withStoredLast env) cfg agentId jobPayload options) =
     entryLastChannel (mainEntry env cfg agentId jobPayload) \<and>
   sd_lastTo (preliminary (withStoredLast env) cfg agentId jobPayload options) =
     entryLastTo (mainEntry env cfg agentId jobPayload)"
  by (simp add: preliminary_def mainEntry_withStoredLast)
     (simp add: withStoredLast_def storedLast_def)

lemma resolved_withStoredLast:
  "sd_lastTo (resolved (withStoredLast env) cfg agentId jobPayload options) =
     entryLastTo (mainEntry env cfg agentId jobPayload)"
proof (cases "truthy (fallbackChannel (withStoredLast env) cfg agentId jobPayload options)")
  case True
  then show ?thesis
    by (simp add: resolved_def Let_def mainEntry_withStoredLast)
       (simp add: withStoredLast_def storedLast_def)
next
  case False
  then show ?thesis
    by (simp add: resolved_def Let_def preliminary_withStoredLast)
qed

lemma sessionTargetFromSpec_thread:
  "\<not> sd_threadIdExplicit (sessionTargetFromSpec p) \<and>
   sd_lastTo (sessionTargetFromSpec p) = entryLastTo (sp_entry p) \<and>
   (sd_threadId (sessionTargetFromSpec p) = Some th \<longrightarrow>
      entryLastThreadId (sp_entry p) = Some th)"
  by (simp add: sessionTargetFromSpec_def Let_def)

lemma resolved_withSessionTargetFromSpec:
  "\<exists>p. sp_entry p = mainEntry env cfg agentId jobPayload \<and>
       resolved (withSessionTargetFromSpec env) cfg agentId jobPayload options =
         sessionTargetFromSpec p"
proof -
  have m: "mainEntry (withSessionTargetFromSpec env) cfg agentId jobPayload =
           mainEntry env cfg agentId jobPayload"
    by (simp add: mainEntry_def withSessionTargetFromSpec_def)
  show ?thesis
  proof (cases "truthy (fallbackChannel (withSessionTargetFromSpec env) cfg agentId
                  jobPayload options)")
    case True
    then have "resolved (withSessionTargetFromSpec env) cfg agentId jobPayload options =
        sessionTargetFromSpec
          \<lparr> sp_entry = mainEntry env cfg agentId jobPayload,
            sp_requestedChannel = requestedChannel jobPayload options,
            sp_explicitTo = explicitTo jobPayload options,
            sp_fallbackChannel =
              fallbackChannel (withSessionTargetFromSpec env) cfg agentId jobPayload options,
            sp_allowMismatchedLastTo = allowMismatchedLastTo jobPayload options,
            sp_mode = Some (sd_mode (preliminary (withSessionTargetFromSpec env) cfg agentId
              jobPayload options)) \<rparr>"
      unfolding resolved_def m by (simp add: Let_def withSessionTargetFromSpec_def)
    then show ?thesis
      by (metis SessionTargetParams.select_convs(1))
  next
    case False
    then have "resolved (withSessionTargetFromSpec env) cfg agentId jobPayload options =
        sessionTargetFromSpec
          \<lparr> sp_entry = mainEntry env cfg agentId jobPayload,
            sp_requestedChannel = requestedChannel jobPayload options,
            sp_explicitTo = explicitTo jobPayload options,
            sp_fallbackChannel = None,
            sp_allowMismatchedLastTo = allowMismatchedLastTo jobPayload options,
            sp_mode = None \<rparr>"
      unfolding resolved_def preliminary_def m by (simp add: Let_def withSessionTargetFromSpec_def)
    then show ?thesis
      by (metis SessionTargetParams.select_convs(1))
  qed
qed

lemma guard_with_stored_lastTo:
  "(dt_threadId (resolveDeliveryTarget (withStoredLast env) cfg agentId jobPayload options)
        = Some th \<longrightarrow>
      (\<exists>oc ot org. directOrigin jobPayload options = Some (oc, ot, org) \<and>
                   or_threadId org = Some th) \<or>
      (directOrigin jobPayload options = None \<and>
       sd_threadId (resolved (withStoredLast env) cfg agentId jobPayload options) = Some th \<and>
       (sd_threadIdExplicit (resolved (withStoredLast env) cfg agentId jobPayload options) \<or>
        (truthy (sd_to (resolved (withStoredLast env) cfg agentId jobPayload options)) \<and>
         sd_to (resolved (withStoredLast env) cfg agentId jobPayload options) =
           entryLastTo (mainEntry env cfg agentId jobPayload))))) \<and>
   (directOrigin jobPayload options = None \<longrightarrow>
      \<not> sd_threadIdExplicit (resolved (withStoredLast env) cfg agentId jobPayload options) \<longrightarrow>
      sd_to (resolved (withStoredLast env) cfg agentId jobPayload options) \<noteq>
        entryLastTo (mainEntry env cfg agentId jobPayload) \<longrightarrow>
      dt_threadId (resolveDeliveryTarget (withStoredLast env) cfg agentId jobPayload options)
        = None) \<and>
   (directOrigin jobPayload options = Some (oc, ot, org) \<longrightarrow>
      dt_threadId (resolveDeliveryTarget (withStoredLast env) cfg agentId jobPayload options)
        = or_threadId org \<and>
      dt_to (resolveDeliveryTarget (withStoredLast env) cfg agentId jobPayload options) =
        (case resolveOutboundTarget env
                \<lparr> ot_channel = oc, ot_to = ot, ot_cfg = cfg,
                  ot_accountId = or_accountId org, ot_mode = ''explicit'' \<rparr> of
           Inr t \<Rightarrow> Some t | Inl _ \<Rightarrow> None))"
proof (cases "directOrigin jobPayload options")
  case None
  have "dt_threadId (resolveDeliveryTarget (withStoredLast env) cfg agentId jobPayload options)
          = guardedThreadId (resolved (withStoredLast env) cfg agentId jobPayload options)"
    using None by (simp add: resolveDeliveryTarget_def Let_def)
  then show ?thesis
    using None by (auto simp: guardedThreadId_def resolved_withStoredLast split: if_splits)
next
  case (Some d)
  obtain oc' ot' org' where d: "d = (oc', ot', org')"
    by (cases d)
  have "resolveOutboundTarget (withStoredLast env) = resolveOutboundTarget env"
    by (simp add: withStoredLast_def)
  then show ?thesis
    using Some d
      resolveDeliveryTarget_direct [of jobPayload options oc' ot' org' "withStoredLast env"
        cfg agentId]
    by (auto simp: Let_def)
qed

lemma guard_from_spec:
  assumes d: "directOrigin jobPayload options = None"
    and t: "dt_threadId (resolveDeliveryTarget (withSessionTargetFromSpec env) cfg agentId
        jobPayload options) = Some th"
  shows "entryLastThreadId (mainEntry env cfg agentId jobPayload) = Some th \<and>
      truthy (sd_to (resolved (withSessionTargetFromSpec env) cfg agentId jobPayload options)) \<and>
      sd_to (resolved (withSessionTargetFromSpec env) cfg agentId jobPayload options) =
        entryLastTo (mainEntry env cfg agentId jobPayload)"
proof -
  obtain p where p: "sp_entry p = mainEntry env cfg agentId jobPayload"
      "resolved (withSessionTargetFromSpec env) cfg agentId jobPayload options =
         sessionTargetFromSpec p"
    using resolved_withSessionTargetFromSpec
      [where env = env and cfg = cfg and agentId = agentId and jobPayload = jobPayload
        and options = options]
    by blast
  have "dt_threadId (resolveDeliveryTarget (withSessionTargetFromSpec env) cfg agentId
          jobPayload options) =
        guardedThreadId (resolved (withSessionTargetFromSpec env) cfg agentId jobPayload options)"
    using d by (simp add: resolveDeliveryTarget_def Let_def)
  then have "guardedThreadId (sessionTargetFromSpec p) = Some th"
    using t p(2) by simp
  then show ?thesis
    using sessionTargetFromSpec_thread [of p th] p
    by (auto simp: guardedThreadId_def split: if_splits)
qed




subsection \<open>The dispatcher\<close>

lemma awaitHandler_not_Thrown: "awaitHandler x \<noteq> Inl (Thrown e)"
  by (simp add: awaitHandler_def split: sum.split)

lemma awaitHandler_not_null: "awaitHandler x \<noteq> Inr None"
  by (simp add: awaitHandler_def split: sum.split)

lemma fallbackDispatch_not_Thrown: "fallbackDispatch ctx ps \<noteq> Inl (Thrown e)"
  by (induction ps) (simp_all add: awaitHandler_not_Thrown split: option.split)

lemma fallbackDispatch_skip:
  "\<forall>p \<in> set skipped. candidateHandler ctx p = None \<Longrightarrow>
   fallbackDispatch ctx (skipped @ ps) = fallbackDispatch ctx ps"
  by (induction skipped) simp_all

lemma fallbackDispatch_null_iff:
  "fallbackDispatch ctx ps = Inr None \<longleftrightarrow> (\<forall>p \<in> set ps. candidateHandler ctx p = None)"
  by (induction ps) (auto simp: awaitHandler_not_null split: option.split)

lemma candidateHandler_Some_iff:
  "candidateHandler ctx candidate = Some h \<longleftrightarrow>
     plugin_id candidate \<noteq> ctx_channel ctx \<and>
     (\<exists>a. actions candidate = Some a \<and> handleAction a = Some h \<and>
          (case supportsAction a of None \<Rightarrow> True | Some s \<Rightarrow> s (ctx_action ctx)))"
  by (auto simp: candidateHandler_def split: option.splits)

lemma primaryHandler_None_iff:
  "primaryHandler reg ctx = None \<longleftrightarrow>
     (case getChannelPlugin reg (ctx_channel ctx) of
        None \<Rightarrow> True
      | Some plugin \<Rightarrow>
          (case actions plugin of
             None \<Rightarrow> True
           | Some a \<Rightarrow>
               handleAction a = None \<or>
               (\<exists>s. supportsAction a = Some s \<and> \<not> s (ctx_action ctx))))"
  by (auto simp: primaryHandler_def Let_def split: option.splits)

lemma blankSender_iff:
  "blankSender ctx \<longleftrightarrow>
     (case ctx_requesterSenderId ctx of None \<Rightarrow> True | Some s \<Rightarrow> trim s = [])"
  by (simp add: blankSender_def split: option.split)

lemma requiresTrustedRequesterSender_iff:
  "requiresTrustedRequesterSender ctx = Inr True \<longleftrightarrow>
     (\<exists>acts. trustedRequesterRequiredByChannel (ctx_channel ctx) = Some (ActionSet acts) \<and>
             ctx_action ctx \<in> acts) \<and> ctx_toolContext ctx"
  by (auto simp: requiresTrustedRequesterSender_def split: option.splits table_value.splits)

lemma requiresTrustedRequesterSender_throws:
  "requiresTrustedRequesterSender ctx = Inl e \<longleftrightarrow>
     trustedRequesterRequiredByChannel (ctx_channel ctx) = Some InheritedMember \<and>
     e = TypeError ''actions?.has is not a function''"
  by (auto simp: requiresTrustedRequesterSender_def split: option.splits table_value.splits)

lemma dispatch_Thrown_iff:
  "dispatchChannelMessageAction reg ctx = Inl (Thrown e) \<longleftrightarrow>
     requiresTrustedRequesterSender ctx = Inl e \<or>
     requiresTrustedRequesterSender ctx = Inr True \<and> blankSender ctx \<and>
       e = trustedSenderError ctx"
  by (auto simp: dispatchChannelMessageAction_def awaitHandler_not_Thrown
      fallbackDispatch_not_Thrown split: option.splits sum.splits)

lemma dispatch_gate_open:
  "requiresTrustedRequesterSender ctx = Inr required \<Longrightarrow>
   \<not> (required \<and> blankSender ctx) \<Longrightarrow>
   dispatchChannelMessageAction reg ctx =
     (case primaryHandler reg ctx of
        Some h \<Rightarrow> awaitHandler (h ctx)
      | None \<Rightarrow> fallbackDispatch ctx (listChannelPlugins reg))"
  by (auto simp: dispatchChannelMessageAction_def)

subsection \<open>The refactored variant against the original\<close>

lemma collectActions005_eq: "collectActions005 cfg acts ps = collectActions cfg acts ps"
  by (induction ps arbitrary: acts) (simp_all split: option.split)

lemma anyPluginFeature_buttons:
  "anyPluginFeature (\<lambda>a. case supportsButtons a of None \<Rightarrow> False
                         | Some f \<Rightarrow> f \<lparr> fp_cfg = cfg, fp_channel = None \<rparr>) ps =
   anySupportsButtons cfg ps"
  by (induction ps) simp_all

lemma anyPluginFeature_cards:
  "anyPluginFeature (\<lambda>a. case supportsCards a of None \<Rightarrow> False
                         | Some f \<Rightarrow> f \<lparr> fp_cfg = cfg, fp_channel = None \<rparr>) ps =
   anySupportsCards cfg ps"
  by (induction ps) simp_all

lemma candidateHandler005_eq: "candidateHandler005 ctx p = candidateHandler ctx p"
  by (simp add: candidateHandler005_def candidateHandler_def)

lemma fallbackDispatch005_eq: "fallbackDispatch005 ctx ps = fallbackDispatch ctx ps"
  by (induction ps) (simp_all add: candidateHandler005_eq cong: option.case_cong)

lemma dispatch005_eq:
  "dispatchChannelMessageAction005 reg ctx = dispatchChannelMessageAction reg ctx"
  by (simp add: dispatchChannelMessageAction005_def dispatchChannelMessageAction_def
      requiresTrustedRequesterSender005_def requiresTrustedRequesterSender_def
      trustedRequesterRequiredByChannel005_def trustedRequesterRequiredByChannel_def
      primaryHandler005_def primaryHandler_def fallbackDispatch005_eq
      cong: option.case_cong if_cong sum.case_cong)

subsection \<open>Evaluating the examples\<close>

lemma trim_examples:
  "trim ''123'' = ''123''" "trim ''oc_1'' = ''oc_1''" "trim ''oc_2'' = ''oc_2''"
  "trim ''?'' = ''?''" "trim '' '' = []" "trim '' u1'' = ''u1''"
  by (simp_all add: trim_def isWhiteSpace_def)

lemmas resolver_defs =
  origin_def deliveryMode_def hasExplicitChannel_def hasExplicitTo_def useOrigin_def
  originChannel_def originTo_def requestedChannel_def explicitTo_def allowMismatchedLastTo_def
  mainEntry_def preliminary_def fallbackChannel_def resolved_def resolvedChannel_def
  resolvedAccountId_def guardedThreadId_def directOrigin_def resolveDeliveryTarget_def

lemmas example_defs =
  entryLastChannel_def entryLastTo_def entryLastThreadId_def concreteChannel_def
  sessionTargetFromSpec_def
  exampleCollaborators_def
  feishuEntry_def feishuStore_def telegramOrigin_def fromOrigin_def payload_def

lemmas dispatch_defs =
  objectPrototypeKeys_def trustedRequesterRequiredByChannel_def
  requiresTrustedRequesterSender_def blankSender_def
  trustedSenderError_def awaitHandler_def primaryHandler_def candidateHandler_def
  dispatchChannelMessageAction_def

lemmas plugin_defs =
  exampleHandler_def examplePlugin_def exampleRegistry_def exampleContext_def

section \<open>The claims\<close>

subsection \<open>C1: the thread id guard\<close>

text \<open>
  C1. With session resolution reporting the entry's stored \<open>lastTo\<close>, the result of
  every resolution carries a thread id only if that thread id was explicitly supplied or
  the resolved recipient equals the session entry's \<open>lastTo\<close>. Explicitly supplied means:
  given by the job's origin on the origin short-circuit, where it goes to the origin's own
  recipient, or flagged as explicit (\<open>threadIdExplicit\<close>) by session resolution. In
  particular, on the session path a thread id that is not flagged explicit is dropped
  whenever the resolved recipient differs from the entry's \<open>lastTo\<close>, and the
  short-circuit of an origin without thread id yields none. With session resolution as
  the spec describes it, which takes thread ids from the session entry only, the session
  path carries no other thread id than the entry's \<open>lastThreadId\<close>, and carries it only
  when the resolved recipient is the entry's \<open>lastTo\<close>.
\<close>

theorem thread_id_guard:
  "(dt_threadId (resolveDeliveryTarget (withStoredLast env) cfg agentId jobPayload options)
        = Some th \<longrightarrow>
      (\<exists>oc ot org. directOrigin jobPayload options = Some (oc, ot, org) \<and>
                   or_threadId org = Some th) \<or>
      (directOrigin jobPayload options = None \<and>
       sd_threadId (resolved (withStoredLast env) cfg agentId jobPayload options) = Some th \<and>
       (sd_threadIdExplicit (resolved (withStoredLast env) cfg agentId jobPayload options) \<or>
        (truthy (sd_to (resolved (withStoredLast env) cfg agentId jobPayload options)) \<and>
         sd_to (resolved (withStoredLast env) cfg agentId jobPayload options) =
           entryLastTo (mainEntry env cfg agentId jobPayload))))) \<and>
   (directOrigin jobPayload options = None \<longrightarrow>
      \<not> sd_threadIdExplicit (resolved (withStoredLast env) cfg agentId jobPayload options) \<longrightarrow>
      sd_to (resolved (withStoredLast env) cfg agentId jobPayload options) \<noteq>
        entryLastTo (mainEntry env cfg agentId jobPayload) \<longrightarrow>
      dt_threadId (resolveDeliveryTarget (withStoredLast env) cfg agentId jobPayload options)
        = None) \<and>
   (directOrigin jobPayload options = Some (oc, ot, org) \<longrightarrow>
      dt_threadId (resolveDeliveryTarget (withStoredLast env) cfg agentId jobPayload options)
        = or_threadId org \<and>
      dt_to (resolveDeliveryTarget (withStoredLast env) cfg agentId jobPayload options) =
        (case resolveOutboundTarget env
                \<lparr> ot_channel = oc, ot_to = ot, ot_cfg = cfg,
                  ot_accountId = or_accountId org, ot_mode = ''explicit'' \<rparr> of
           Inr t \<Rightarrow> Some t | Inl _ \<Rightarrow> None)) \<and>
   (directOrigin jobPayload options = None \<longrightarrow>
      dt_threadId (resolveDeliveryTarget (withSessionTargetFromSpec env) cfg agentId
        jobPayload options) = Some th \<longrightarrow>
      entryLastThreadId (mainEntry env cfg agentId jobPayload) = Some th \<and>
      truthy (sd_to (resolved (withSessionTargetFromSpec env) cfg agentId jobPayload options)) \<and>
      sd_to (resolved (withSessionTargetFromSpec env) cfg agentId jobPayload options) =
        entryLastTo (mainEntry env cfg agentId jobPayload))"
  using guard_with_stored_lastTo [of env cfg agentId jobPayload options th oc ot org]
    guard_from_spec [of jobPayload options env cfg agentId th]
  by blast

text \<open>
  With the session \<open>{lastChannel: feishu, lastTo: oc_1, lastThreadId: t9}\<close>: a delivery to
  the last recipient keeps \<open>t9\<close>; a delivery to \<open>oc_2\<close> drops it; a delivery to \<open>oc_2\<close>
  keeps the thread id 7 that session resolution flags as explicit; and a job created from
  the telegram chat 123 keeps the thread id 42 of its origin on the way to 123.
\<close>

theorem thread_id_guard_witness:
  "directOrigin (payload (Some ''last'') None) None = None \<and>
   dt_threadId (resolveDeliveryTarget
     (withStoredLast (exampleCollaborators feishuStore (Inr ''discord''))) ()
     ''main'' (payload (Some ''last'') None) None) = Some (ThreadStr ''t9'') \<and>
   sd_to (resolved (withStoredLast (exampleCollaborators feishuStore (Inr ''discord''))) ()
     ''main'' (payload (Some ''last'') None) None) = Some ''oc_1'' \<and>
   entryLastTo (mainEntry (exampleCollaborators feishuStore (Inr ''discord'')) ()
     ''main'' (payload (Some ''last'') None)) = Some ''oc_1'' \<and>
   dt_threadId (resolveDeliveryTarget
     (withSessionTargetFromSpec (exampleCollaborators feishuStore (Inr ''discord''))) ()
     ''main'' (payload (Some ''last'') None) None) = Some (ThreadStr ''t9'') \<and>
   entryLastThreadId (mainEntry (exampleCollaborators feishuStore (Inr ''discord'')) ()
     ''main'' (payload (Some ''last'') None)) = Some (ThreadStr ''t9'') \<and>
   directOrigin (payload (Some ''last'') (Some ''oc_2'')) None = None \<and>
   \<not> sd_threadIdExplicit
     (resolved (withStoredLast (exampleCollaborators feishuStore (Inr ''discord''))) ()
     ''main'' (payload (Some ''last'') (Some ''oc_2'')) None) \<and>
   sd_to (resolved (withStoredLast (exampleCollaborators feishuStore (Inr ''discord''))) ()
     ''main'' (payload (Some ''last'') (Some ''oc_2'')) None) = Some ''oc_2'' \<and>
   dt_threadId (resolveDeliveryTarget
     (withStoredLast (exampleCollaborators feishuStore (Inr ''discord''))) ()
     ''main'' (payload (Some ''last'') (Some ''oc_2'')) None) = None \<and>
   sd_threadIdExplicit
     (resolved (withStoredLast ((exampleCollaborators feishuStore (Inr ''discord''))
        \<lparr>resolveSessionDeliveryTarget := exampleSessionTargetExplicit\<rparr>)) ()
     ''main'' (payload (Some ''last'') (Some ''oc_2'')) None) \<and>
   dt_threadId (resolveDeliveryTarget
     (withStoredLast ((exampleCollaborators feishuStore (Inr ''discord''))
        \<lparr>resolveSessionDeliveryTarget := exampleSessionTargetExplicit\<rparr>)) ()
     ''main'' (payload (Some ''last'') (Some ''oc_2'')) None) = Some (ThreadNum 7) \<and>
   directOrigin (payload None None) (fromOrigin telegramOrigin) =
     Some (''telegram'', ''123'', telegramOrigin) \<and>
   dt_threadId (resolveDeliveryTarget
     (withStoredLast (exampleCollaborators feishuStore (Inr ''discord''))) ()
     ''main'' (payload None None) (fromOrigin telegramOrigin)) = Some (ThreadNum 42) \<and>
   dt_to (resolveDeliveryTarget
     (withStoredLast (exampleCollaborators feishuStore (Inr ''discord''))) ()
     ''main'' (payload None None) (fromOrigin telegramOrigin)) = Some ''123''"
  using
    thread_id_guard [where jobPayload = "payload (Some ''last'') None" and options = None
      and env = "exampleCollaborators feishuStore (Inr ''discord'')" and cfg = "()"
      and agentId = "''main''" and th = "ThreadStr ''t9''"]
    thread_id_guard [where jobPayload = "payload (Some ''last'') (Some ''oc_2'')"
      and options = None and env = "exampleCollaborators feishuStore (Inr ''discord'')"
      and cfg = "()" and agentId = "''main''"]
    thread_id_guard [where jobPayload = "payload (Some ''last'') (Some ''oc_2'')"
      and options = None
      and env = "(exampleCollaborators feishuStore (Inr ''discord''))
        \<lparr>resolveSessionDeliveryTarget := exampleSessionTargetExplicit\<rparr>"
      and cfg = "()" and agentId = "''main''" and th = "ThreadNum 7"]
    thread_id_guard [where jobPayload = "payload None None"
      and options = "fromOrigin telegramOrigin"
      and env = "exampleCollaborators feishuStore (Inr ''discord'')" and cfg = "()"
      and agentId = "''main''" and oc = "''telegram''" and ot = "''123''"
      and org = telegramOrigin and th = "ThreadNum 42"]
  by (simp add: resolver_defs example_defs withStoredLast_def storedLast_def
      withSessionTargetFromSpec_def exampleSessionTargetExplicit_def trim_examples Let_def)

subsection \<open>C2: a delivered recipient is a normalized one\<close>

text \<open>
  C2. Whenever the result of \<open>resolveDeliveryTarget\<close> has a recipient \<open>to\<close>, that
  recipient is the output of a successful \<open>resolveOutboundTarget\<close> call made for the
  result's own channel, account and mode on a non-empty candidate.
\<close>

theorem delivered_to_is_normalized:
  assumes "dt_to (resolveDeliveryTarget env cfg agentId jobPayload options) = Some t"
  shows "\<exists>cand. cand \<noteq> [] \<and>
           resolveOutboundTarget env
             \<lparr> ot_channel = dt_channel (resolveDeliveryTarget env cfg agentId jobPayload options),
               ot_to = cand, ot_cfg = cfg,
               ot_accountId =
                 dt_accountId (resolveDeliveryTarget env cfg agentId jobPayload options),
               ot_mode = dt_mode (resolveDeliveryTarget env cfg agentId jobPayload options) \<rparr>
           = Inr t"
proof (cases "directOrigin jobPayload options")
  case (Some d)
  obtain oc ot org where d: "d = (oc, ot, org)"
    by (cases d)
  have ne: "ot \<noteq> []"
    using Some d directOrigin_SomeD by blast
  show ?thesis
    using assms ne Some d
      resolveDeliveryTarget_direct [of jobPayload options oc ot org env cfg agentId]
    by (auto simp: Let_def split: sum.splits)
next
  case None
  show ?thesis
  proof (cases "truthy (sd_to (resolved env cfg agentId jobPayload options))")
    case False
    then show ?thesis
      using assms resolveDeliveryTarget_no_candidate [OF None False] by simp
  next
    case True
    then obtain cand
      where c: "sd_to (resolved env cfg agentId jobPayload options) = Some cand" "cand \<noteq> []"
      by (cases "sd_to (resolved env cfg agentId jobPayload options)") auto
    show ?thesis
      using assms c resolveDeliveryTarget_candidate [OF None c]
      by (auto simp: Let_def split: sum.splits)
  qed
qed

text \<open>With the feishu session and a request for the last channel, the recipient
  \<open>oc_1\<close> is what the normalizer returned.\<close>

theorem delivered_to_is_normalized_witness:
  "dt_to (resolveDeliveryTarget (exampleCollaborators feishuStore (Inr ''discord'')) ()
     ''main'' (payload (Some ''last'') None) None) = Some ''oc_1'' \<and>
   (\<exists>cand. cand \<noteq> [] \<and>
      resolveOutboundTarget (exampleCollaborators feishuStore (Inr ''discord''))
        \<lparr> ot_channel = dt_channel (resolveDeliveryTarget
             (exampleCollaborators feishuStore (Inr ''discord'')) ()
             ''main'' (payload (Some ''last'') None) None),
          ot_to = cand, ot_cfg = (),
          ot_accountId = dt_accountId (resolveDeliveryTarget
             (exampleCollaborators feishuStore (Inr ''discord'')) ()
             ''main'' (payload (Some ''last'') None) None),
          ot_mode = dt_mode (resolveDeliveryTarget
             (exampleCollaborators feishuStore (Inr ''discord'')) ()
             ''main'' (payload (Some ''last'') None) None) \<rparr>
      = Inr ''oc_1'')"
proof -
  have h: "dt_to (resolveDeliveryTarget (exampleCollaborators feishuStore (Inr ''discord'')) ()
     ''main'' (payload (Some ''last'') None) None) = Some ''oc_1''"
    by (simp add: resolver_defs example_defs trim_examples Let_def)
  show ?thesis
    using h delivered_to_is_normalized [OF h] by blast
qed

subsection \<open>C3: the origin short-circuit\<close>



subsection \<open>C4: the authorization gate\<close>

text \<open>
  C4. \<open>dispatchChannelMessageAction\<close> throws its trusted-sender error exactly when the
  action is in the trusted-requester table for the context's channel, \<open>toolContext\<close> is
  set, and \<open>requesterSenderId\<close> is absent or blank after trimming. The table has the
  one entry \<open>discord\<close>, with the actions \<open>timeout\<close>, \<open>kick\<close> and \<open>ban\<close>; reading it
  yields \<open>undefined\<close> for every other channel that is not a key of \<open>Object.prototype\<close>.
\<close>

theorem authorization_gate:
  "(dispatchChannelMessageAction reg ctx = Inl (Thrown (trustedSenderError ctx))) =
     ((\<exists>acts. trustedRequesterRequiredByChannel (ctx_channel ctx) = Some (ActionSet acts) \<and>
              ctx_action ctx \<in> acts) \<and>
      ctx_toolContext ctx \<and>
      (case ctx_requesterSenderId ctx of None \<Rightarrow> True | Some s \<Rightarrow> trim s = [])) \<and>
   trustedRequesterRequiredByChannel ''discord'' =
     Some (ActionSet {''timeout'', ''kick'', ''ban''}) \<and>
   (\<exists>acts. trustedRequesterRequiredByChannel channel = Some (ActionSet acts)) =
     (channel = ''discord'') \<and>
   (trustedRequesterRequiredByChannel channel = None) =
     (channel \<noteq> ''discord'' \<and> channel \<notin> objectPrototypeKeys)"
proof -
  have "requiresTrustedRequesterSender ctx \<noteq> Inl (trustedSenderError ctx)"
    by (simp add: requiresTrustedRequesterSender_throws trustedSenderError_def)
  then have "(dispatchChannelMessageAction reg ctx = Inl (Thrown (trustedSenderError ctx))) =
     ((\<exists>acts. trustedRequesterRequiredByChannel (ctx_channel ctx) = Some (ActionSet acts) \<and>
              ctx_action ctx \<in> acts) \<and>
      ctx_toolContext ctx \<and>
      (case ctx_requesterSenderId ctx of None \<Rightarrow> True | Some s \<Rightarrow> trim s = []))"
    by (simp add: dispatch_Thrown_iff blankSender_iff requiresTrustedRequesterSender_iff)
  then show ?thesis
    by (simp add: trustedRequesterRequiredByChannel_def)
qed

text \<open>A kick on discord from the tool path: thrown with a blank sender, dispatched with
  the sender \<open>u1\<close>, and dispatched without \<open>toolContext\<close>.\<close>

theorem authorization_gate_witness:
  "dispatchChannelMessageAction
     (exampleRegistry [examplePlugin ''discord'' None True])
     (exampleContext ''discord'' ''kick'' True (Some '' '')) =
     Inl (Thrown (Error
       ''Trusted sender identity is required for discord:kick in tool-driven contexts.'')) \<and>
   dispatchChannelMessageAction
     (exampleRegistry [examplePlugin ''discord'' None True])
     (exampleContext ''discord'' ''kick'' True (Some '' u1'')) =
     Inr (Some ''discord did kick on discord'') \<and>
   dispatchChannelMessageAction
     (exampleRegistry [examplePlugin ''discord'' None True])
     (exampleContext ''discord'' ''kick'' False None) =
     Inr (Some ''discord did kick on discord'')"
  using
    authorization_gate [where reg = "exampleRegistry [examplePlugin ''discord'' None True]"
      and ctx = "exampleContext ''discord'' ''kick'' True (Some '' '')"]
  by (simp add: dispatch_defs plugin_defs trim_examples)

subsection \<open>C5: cross-channel fallback\<close>

text \<open>
  C5. When the authorization check returns and the gate lets the call through, and the
  plugin registered for \<open>ctx.channel\<close> cannot perform the action (none registered, no
  \<open>handleAction\<close>, or its \<open>supportsAction\<close> returns false), the dispatcher goes through
  the loaded plugins in registration order and dispatches to the first one that has
  another id, declares \<open>handleAction\<close>, and has no \<open>supportsAction\<close> check or one that
  accepts the action; it returns that handler's outcome for the context with \<open>channel\<close>
  rewritten to that plugin's id.
\<close>

theorem cross_channel_fallback:
  assumes "requiresTrustedRequesterSender ctx = Inr required"
    and "\<not> (required \<and> blankSender ctx)"
    and "primaryHandler reg ctx = None"
    and "listChannelPlugins reg = skipped @ candidate # rest"
    and "\<forall>p \<in> set skipped. candidateHandler ctx p = None"
    and "candidateHandler ctx candidate = Some h"
  shows "dispatchChannelMessageAction reg ctx =
           awaitHandler (h (ctx\<lparr>ctx_channel := plugin_id candidate\<rparr>)) \<and>
         plugin_id candidate \<noteq> ctx_channel ctx \<and>
         (\<exists>a. actions candidate = Some a \<and> handleAction a = Some h \<and>
              (case supportsAction a of None \<Rightarrow> True | Some s \<Rightarrow> s (ctx_action ctx)))"
proof -
  have "dispatchChannelMessageAction reg ctx =
           awaitHandler (h (ctx\<lparr>ctx_channel := plugin_id candidate\<rparr>))"
    using assms(3-6)
    by (simp add: dispatch_gate_open [OF assms(1) assms(2)] fallbackDispatch_skip)
  moreover have "plugin_id candidate \<noteq> ctx_channel ctx \<and>
         (\<exists>a. actions candidate = Some a \<and> handleAction a = Some h \<and>
              (case supportsAction a of None \<Rightarrow> True | Some s \<Rightarrow> s (ctx_action ctx)))"
    using assms(6) by (simp add: candidateHandler_Some_iff)
  ultimately show ?thesis by simp
qed

text \<open>The spec's example: A does not handle \<open>ping\<close>, B does; a \<open>ping\<close> sent to A is
  handled by B on channel B.\<close>

theorem cross_channel_fallback_witness:
  "requiresTrustedRequesterSender (exampleContext ''A'' ''ping'' False None) = Inr False \<and>
   primaryHandler
     (exampleRegistry [examplePlugin ''A'' (Some (\<lambda>_. False)) True,
                       examplePlugin ''B'' (Some (\<lambda>_. True)) True])
     (exampleContext ''A'' ''ping'' False None) = None \<and>
   candidateHandler (exampleContext ''A'' ''ping'' False None)
     (examplePlugin ''A'' (Some (\<lambda>_. False)) True) = None \<and>
   candidateHandler (exampleContext ''A'' ''ping'' False None)
     (examplePlugin ''B'' (Some (\<lambda>_. True)) True) = Some (exampleHandler ''B'') \<and>
   dispatchChannelMessageAction
     (exampleRegistry [examplePlugin ''A'' (Some (\<lambda>_. False)) True,
                       examplePlugin ''B'' (Some (\<lambda>_. True)) True])
     (exampleContext ''A'' ''ping'' False None) = Inr (Some ''B did ping on B'')"
  using cross_channel_fallback [where ctx = "exampleContext ''A'' ''ping'' False None"
      and required = False
      and reg = "exampleRegistry [examplePlugin ''A'' (Some (\<lambda>_. False)) True,
                                  examplePlugin ''B'' (Some (\<lambda>_. True)) True]"
      and skipped = "[examplePlugin ''A'' (Some (\<lambda>_. False)) True]"
      and candidate = "examplePlugin ''B'' (Some (\<lambda>_. True)) True"
      and rest = "[]" and h = "exampleHandler ''B''"]
  by (simp add: dispatch_defs plugin_defs)

text \<open>
  The claim as worded fails in three ways. With the plugins A (rejects \<open>ping\<close>), B (an
  \<open>actions\<close> adapter without \<open>handleAction\<close> and without \<open>supportsAction\<close>) and C
  (handles everything), a \<open>ping\<close> sent to A goes to C, although B is the first other
  plugin whose absent \<open>supportsAction\<close> check accepts the action. A \<open>kick\<close> on discord
  from the tool path without a sender is thrown by the gate, although the discord plugin
  cannot perform it and B would take it. And a \<open>ping\<close> for a channel named
  \<open>constructor\<close>, for which no plugin is registered, ends in the \<open>TypeError\<close> of the
  authorization check, although B would take it.
\<close>

theorem cross_channel_fallback_counterexample:
  "dispatchChannelMessageAction
     (exampleRegistry [examplePlugin ''A'' (Some (\<lambda>_. False)) True,
                       examplePlugin ''B'' None False,
                       examplePlugin ''C'' None True])
     (exampleContext ''A'' ''ping'' False None) = Inr (Some ''C did ping on C'') \<and>
   dispatchChannelMessageAction
     (exampleRegistry [examplePlugin ''discord'' None False, examplePlugin ''B'' None True])
     (exampleContext ''discord'' ''kick'' True None) =
     Inl (Thrown (Error
       ''Trusted sender identity is required for discord:kick in tool-driven contexts.'')) \<and>
   primaryHandler
     (exampleRegistry [examplePlugin ''discord'' None False, examplePlugin ''B'' None True])
     (exampleContext ''discord'' ''kick'' True None) = None \<and>
   candidateHandler (exampleContext ''discord'' ''kick'' True None)
     (examplePlugin ''B'' None True) = Some (exampleHandler ''B'') \<and>
   dispatchChannelMessageAction
     (exampleRegistry [examplePlugin ''B'' None True])
     (exampleContext ''constructor'' ''ping'' False None) =
     Inl (Thrown (TypeError ''actions?.has is not a function'')) \<and>
   primaryHandler
     (exampleRegistry [examplePlugin ''B'' None True])
     (exampleContext ''constructor'' ''ping'' False None) = None \<and>
   candidateHandler (exampleContext ''constructor'' ''ping'' False None)
     (examplePlugin ''B'' None True) = Some (exampleHandler ''B'')"
  by (simp add: dispatch_defs plugin_defs)

subsection \<open>C6: the fallback channel chain\<close>



subsection \<open>C7: a rejected recipient is reported, not thrown\<close>

text \<open>
  C7. \<open>resolveDeliveryTarget\<close> returns a result on every input. When the normalizer
  rejects the recipient candidate (the origin's recipient on the short-circuit, the
  resolved recipient otherwise), the result's \<open>error\<close> is the normalizer's error and its
  \<open>to\<close> is undefined. When there is no recipient candidate, the result has the resolved
  channel, account, thread id and mode, no \<open>to\<close> and no \<open>error\<close>.
\<close>

theorem normalization_rejection_is_reported:
  "(directOrigin jobPayload options = Some (oc, ot, org) \<longrightarrow>
      resolveOutboundTarget env
        \<lparr> ot_channel = oc, ot_to = ot, ot_cfg = cfg,
          ot_accountId = or_accountId org, ot_mode = ''explicit'' \<rparr> = Inl e \<longrightarrow>
      dt_error (resolveDeliveryTarget env cfg agentId jobPayload options) = Some e \<and>
      dt_to (resolveDeliveryTarget env cfg agentId jobPayload options) = None) \<and>
   (directOrigin jobPayload options = None \<longrightarrow>
      sd_to (resolved env cfg agentId jobPayload options) = Some cand \<longrightarrow> cand \<noteq> [] \<longrightarrow>
      resolveOutboundTarget env
        \<lparr> ot_channel = resolvedChannel env cfg agentId jobPayload options,
          ot_to = cand, ot_cfg = cfg,
          ot_accountId = resolvedAccountId env cfg agentId jobPayload options,
          ot_mode = sd_mode (resolved env cfg agentId jobPayload options) \<rparr> = Inl e \<longrightarrow>
      dt_error (resolveDeliveryTarget env cfg agentId jobPayload options) = Some e \<and>
      dt_to (resolveDeliveryTarget env cfg agentId jobPayload options) = None) \<and>
   (directOrigin jobPayload options = None \<longrightarrow>
      \<not> truthy (sd_to (resolved env cfg agentId jobPayload options)) \<longrightarrow>
      resolveDeliveryTarget env cfg agentId jobPayload options =
        \<lparr> dt_channel = resolvedChannel env cfg agentId jobPayload options,
          dt_to = None,
          dt_accountId = resolvedAccountId env cfg agentId jobPayload options,
          dt_threadId = guardedThreadId (resolved env cfg agentId jobPayload options),
          dt_mode = sd_mode (resolved env cfg agentId jobPayload options),
          dt_error = None \<rparr>)"
  by (simp add: resolveDeliveryTarget_direct resolveDeliveryTarget_no_candidate
      resolveDeliveryTarget_candidate)

text \<open>
  The example normalizer rejects \<open>?\<close>: as the origin's recipient and as the payload's
  recipient it ends in \<open>error\<close> without \<open>to\<close>. An empty store without origin gives the
  partial result on the selected channel.
\<close>

theorem normalization_rejection_is_reported_witness:
  "directOrigin (payload None None) (fromOrigin (telegramOrigin\<lparr>or_to := Some ''?''\<rparr>)) =
     Some (''telegram'', ''?'', telegramOrigin\<lparr>or_to := Some ''?''\<rparr>) \<and>
   resolveDeliveryTarget (exampleCollaborators feishuStore (Inr ''discord'')) () ''main''
     (payload None None) (fromOrigin (telegramOrigin\<lparr>or_to := Some ''?''\<rparr>)) =
     \<lparr> dt_channel = ''telegram'', dt_to = None, dt_accountId = None,
       dt_threadId = Some (ThreadNum 42), dt_mode = ''explicit'',
       dt_error = Some (Error ''invalid target'') \<rparr> \<and>
   directOrigin (payload None (Some ''?'')) None = None \<and>
   sd_to (resolved (exampleCollaborators feishuStore (Inr ''discord'')) () ''main''
     (payload None (Some ''?'')) None) = Some ''?'' \<and>
   resolveDeliveryTarget (exampleCollaborators feishuStore (Inr ''discord'')) () ''main''
     (payload None (Some ''?'')) None =
     \<lparr> dt_channel = ''feishu'', dt_to = None, dt_accountId = None,
       dt_threadId = None, dt_mode = ''explicit'',
       dt_error = Some (Error ''invalid target'') \<rparr> \<and>
   \<not> truthy (sd_to (resolved (exampleCollaborators Map.empty (Inr ''discord'')) () ''main''
     (payload None None) None)) \<and>
   resolveDeliveryTarget (exampleCollaborators Map.empty (Inr ''discord'')) () ''main''
     (payload None None) None =
     \<lparr> dt_channel = ''discord'', dt_to = None, dt_accountId = None,
       dt_threadId = None, dt_mode = ''implicit'', dt_error = None \<rparr>"
  using
    normalization_rejection_is_reported
      [where jobPayload = "payload None None"
        and options = "fromOrigin (telegramOrigin\<lparr>or_to := Some ''?''\<rparr>)"
        and oc = "''telegram''" and ot = "''?''"
        and org = "telegramOrigin\<lparr>or_to := Some ''?''\<rparr>"
        and env = "exampleCollaborators feishuStore (Inr ''discord'')"
        and cfg = "()" and agentId = "''main''" and e = "Error ''invalid target''"]
    normalization_rejection_is_reported
      [where jobPayload = "payload None (Some ''?'')" and options = None
        and cand = "''?''"
        and env = "exampleCollaborators feishuStore (Inr ''discord'')"
        and cfg = "()" and agentId = "''main''" and e = "Error ''invalid target''"]
    normalization_rejection_is_reported
      [where jobPayload = "payload None None" and options = None
        and env = "exampleCollaborators Map.empty (Inr ''discord'')"
        and cfg = "()" and agentId = "''main''"]
  by (simp add: resolver_defs example_defs trim_examples Let_def)

subsection \<open>C8: an unsupported action yields null\<close>

text \<open>
  C8. When the authorization check returns and the gate lets the call through, and no
  plugin can perform the action (not the plugin registered for \<open>ctx.channel\<close>, and none
  of the loaded plugins as a fallback), \<open>dispatchChannelMessageAction\<close> returns \<open>null\<close>
  and does not throw.
\<close>

theorem unsupported_action_yields_null:
  assumes "requiresTrustedRequesterSender ctx = Inr required"
    and "\<not> (required \<and> blankSender ctx)"
    and "primaryHandler reg ctx = None"
    and "\<forall>p \<in> set (listChannelPlugins reg). candidateHandler ctx p = None"
  shows "dispatchChannelMessageAction reg ctx = Inr None"
  using assms(3,4)
  by (simp add: dispatch_gate_open [OF assms(1) assms(2)] fallbackDispatch_null_iff)

text \<open>A rejects \<open>ping\<close> and B has no handler: a \<open>ping\<close> sent to A yields \<open>null\<close>.\<close>

theorem unsupported_action_yields_null_witness:
  "requiresTrustedRequesterSender (exampleContext ''A'' ''ping'' False None) = Inr False \<and>
   primaryHandler
     (exampleRegistry [examplePlugin ''A'' (Some (\<lambda>_. False)) True,
                       examplePlugin ''B'' None False])
     (exampleContext ''A'' ''ping'' False None) = None \<and>
   candidateHandler (exampleContext ''A'' ''ping'' False None)
     (examplePlugin ''A'' (Some (\<lambda>_. False)) True) = None \<and>
   candidateHandler (exampleContext ''A'' ''ping'' False None)
     (examplePlugin ''B'' None False) = None \<and>
   dispatchChannelMessageAction
     (exampleRegistry [examplePlugin ''A'' (Some (\<lambda>_. False)) True,
                       examplePlugin ''B'' None False])
     (exampleContext ''A'' ''ping'' False None) = Inr None"
  using unsupported_action_yields_null
      [where ctx = "exampleContext ''A'' ''ping'' False None" and required = False
        and reg = "exampleRegistry [examplePlugin ''A'' (Some (\<lambda>_. False)) True,
                                    examplePlugin ''B'' None False]"]
  by (simp add: dispatch_defs plugin_defs)

text \<open>
  The claim as worded, for every dispatch: with no plugin loaded at all, a \<open>kick\<close> on
  discord from the tool path without a sender is thrown by the gate, and a \<open>ping\<close> for a
  channel named \<open>toString\<close> ends in the \<open>TypeError\<close> of the authorization check;
  neither is answered with \<open>null\<close>.
\<close>

theorem unsupported_action_yields_null_counterexample:
  "dispatchChannelMessageAction
     (exampleRegistry ([] :: (unit, unit, string) ChannelPlugin list))
     (exampleContext ''discord'' ''kick'' True None) =
     Inl (Thrown (Error
       ''Trusted sender identity is required for discord:kick in tool-driven contexts.'')) \<and>
   primaryHandler
     (exampleRegistry ([] :: (unit, unit, string) ChannelPlugin list))
     (exampleContext ''discord'' ''kick'' True None) = None \<and>
   dispatchChannelMessageAction
     (exampleRegistry ([] :: (unit, unit, string) ChannelPlugin list))
     (exampleContext ''toString'' ''ping'' False None) =
     Inl (Thrown (TypeError ''actions?.has is not a function'')) \<and>
   primaryHandler
     (exampleRegistry ([] :: (unit, unit, string) ChannelPlugin list))
     (exampleContext ''toString'' ''ping'' False None) = None \<and>
   listChannelPlugins (exampleRegistry ([] :: (unit, unit, string) ChannelPlugin list)) = []"
  by (simp add: dispatch_defs plugin_defs)

subsection \<open>C9: the refactored variant\<close>

text \<open>
  C9. The functions of part_005 agree with those of message-actions.ts on every registry,
  configuration and context for \<open>listChannelMessageActions\<close>,
  \<open>supportsChannelMessageButtons\<close>, \<open>supportsChannelMessageCards\<close> and
  \<open>dispatchChannelMessageAction\<close> (same result, same thrown error). The per-channel
  queries \<open>supportsChannelMessageButtonsForChannel\<close> and
  \<open>supportsChannelMessageCardsForChannel\<close> agree whenever the queried plugin's check
  answers the same for the caller's \<open>params\<close> object as for \<open>{cfg: params.cfg}\<close>:
  part_005 hands the check the whole \<open>params\<close> object, message-actions.ts a fresh object
  with the \<open>cfg\<close> property only.
\<close>

theorem part_005_equivalence:
  "listChannelMessageActions005 reg cfg = listChannelMessageActions reg cfg \<and>
   supportsChannelMessageButtons005 reg cfg = supportsChannelMessageButtons reg cfg \<and>
   supportsChannelMessageCards005 reg cfg = supportsChannelMessageCards reg cfg \<and>
   dispatchChannelMessageAction005 reg ctx = dispatchChannelMessageAction reg ctx \<and>
   ((\<forall>c plugin a f. fp_channel params = Some c \<longrightarrow> getChannelPlugin reg c = Some plugin \<longrightarrow>
        actions plugin = Some a \<longrightarrow> supportsButtons a = Some f \<longrightarrow>
        f params = f \<lparr> fp_cfg = fp_cfg params, fp_channel = None \<rparr>) \<longrightarrow>
    supportsChannelMessageButtonsForChannel005 reg params =
      supportsChannelMessageButtonsForChannel reg params) \<and>
   ((\<forall>c plugin a f. fp_channel params = Some c \<longrightarrow> getChannelPlugin reg c = Some plugin \<longrightarrow>
        actions plugin = Some a \<longrightarrow> supportsCards a = Some f \<longrightarrow>
        f params = f \<lparr> fp_cfg = fp_cfg params, fp_channel = None \<rparr>) \<longrightarrow>
    supportsChannelMessageCardsForChannel005 reg params =
      supportsChannelMessageCardsForChannel reg params)"
proof -
  have 1: "listChannelMessageActions005 reg cfg = listChannelMessageActions reg cfg"
    by (simp add: listChannelMessageActions005_def listChannelMessageActions_def
        collectActions005_eq)
  have 2: "supportsChannelMessageButtons005 reg cfg = supportsChannelMessageButtons reg cfg"
    by (simp add: supportsChannelMessageButtons005_def supportsChannelMessageButtons_def
        supportsMessageFeature_def anyPluginFeature_buttons)
  have 3: "supportsChannelMessageCards005 reg cfg = supportsChannelMessageCards reg cfg"
    by (simp add: supportsChannelMessageCards005_def supportsChannelMessageCards_def
        supportsMessageFeature_def anyPluginFeature_cards)
  have 5: "(\<forall>c plugin a f. fp_channel params = Some c \<longrightarrow>
        getChannelPlugin reg c = Some plugin \<longrightarrow>
        actions plugin = Some a \<longrightarrow> supportsButtons a = Some f \<longrightarrow>
        f params = f \<lparr> fp_cfg = fp_cfg params, fp_channel = None \<rparr>) \<longrightarrow>
    supportsChannelMessageButtonsForChannel005 reg params =
      supportsChannelMessageButtonsForChannel reg params"
    by (auto simp: supportsChannelMessageButtonsForChannel005_def
        supportsChannelMessageButtonsForChannel_def supportsMessageFeatureForChannel_def
        split: option.splits)
  have 6: "(\<forall>c plugin a f. fp_channel params = Some c \<longrightarrow>
        getChannelPlugin reg c = Some plugin \<longrightarrow>
        actions plugin = Some a \<longrightarrow> supportsCards a = Some f \<longrightarrow>
        f params = f \<lparr> fp_cfg = fp_cfg params, fp_channel = None \<rparr>) \<longrightarrow>
    supportsChannelMessageCardsForChannel005 reg params =
      supportsChannelMessageCardsForChannel reg params"
    by (auto simp: supportsChannelMessageCardsForChannel005_def
        supportsChannelMessageCardsForChannel_def supportsMessageFeatureForChannel_def
        split: option.splits)
  show ?thesis
    using 1 2 3 5 6 dispatch005_eq by blast
qed

text \<open>With plugins whose checks are constant, all six functions agree: the actions are
  \<open>send\<close>, \<open>broadcast\<close> and \<open>react\<close>, x supports buttons and y supports cards.\<close>

theorem part_005_equivalence_witness:
  "listChannelMessageActions005
     (exampleRegistry [buttonPlugin ''x'' True, buttonPlugin ''y'' False]) () =
     [''send'', ''broadcast'', ''react''] \<and>
   listChannelMessageActions
     (exampleRegistry [buttonPlugin ''x'' True, buttonPlugin ''y'' False]) () =
     [''send'', ''broadcast'', ''react''] \<and>
   supportsChannelMessageButtonsForChannel005
     (exampleRegistry [buttonPlugin ''x'' True, buttonPlugin ''y'' False])
     \<lparr> fp_cfg = (), fp_channel = Some ''x'' \<rparr> \<and>
   supportsChannelMessageButtonsForChannel
     (exampleRegistry [buttonPlugin ''x'' True, buttonPlugin ''y'' False])
     \<lparr> fp_cfg = (), fp_channel = Some ''x'' \<rparr> \<and>
   \<not> supportsChannelMessageCardsForChannel005
     (exampleRegistry [buttonPlugin ''x'' True, buttonPlugin ''y'' False])
     \<lparr> fp_cfg = (), fp_channel = Some ''x'' \<rparr> \<and>
   \<not> supportsChannelMessageCardsForChannel
     (exampleRegistry [buttonPlugin ''x'' True, buttonPlugin ''y'' False])
     \<lparr> fp_cfg = (), fp_channel = Some ''x'' \<rparr>"
  using part_005_equivalence
      [where reg = "exampleRegistry [buttonPlugin ''x'' True, buttonPlugin ''y'' False]"
        and cfg = "()" and params = "\<lparr> fp_cfg = (), fp_channel = Some ''x'' \<rparr>"
        and ctx = "exampleContext ''x'' ''send'' False None"]
  by (simp add: listChannelMessageActions_def listChannelMessageActions005_def addAction_def
      supportsChannelMessageButtonsForChannel_def supportsChannelMessageCardsForChannel_def
      supportsChannelMessageButtonsForChannel005_def supportsChannelMessageCardsForChannel005_def
      supportsMessageFeatureForChannel_def buttonPlugin_def plugin_defs)

text \<open>
  The claim as worded, for every plugin registry: a plugin whose button check looks for
  the \<open>channel\<close> property of its argument is answered \<open>true\<close> by part_005 and \<open>false\<close>
  by message-actions.ts.
\<close>

theorem part_005_equivalence_counterexample:
  "supportsChannelMessageButtonsForChannel005
     (exampleRegistry [channelAwarePlugin ''x''])
     \<lparr> fp_cfg = (), fp_channel = Some ''x'' \<rparr> \<and>
   \<not> supportsChannelMessageButtonsForChannel
     (exampleRegistry [channelAwarePlugin ''x''])
     \<lparr> fp_cfg = (), fp_channel = Some ''x'' \<rparr>"
  by (simp add: supportsChannelMessageButtonsForChannel_def
      supportsChannelMessageButtonsForChannel005_def supportsMessageFeatureForChannel_def
      channelAwarePlugin_def plugin_defs)

subsection \<open>C10: a blank recipient override is no override\<close>

text \<open>
  C10. A payload whose \<open>to\<close> is blank after trimming is resolved exactly as the same
  payload without \<open>to\<close>: it is not an explicit recipient, it leaves the origin
  short-circuit open, and the recipient handed on to session resolution and to the
  normalizer is the one of the payload without \<open>to\<close>.
\<close>

theorem whitespace_to_is_absent:
  assumes "trim t = []"
  shows "resolveDeliveryTarget env cfg agentId (jobPayload\<lparr>jp_to := Some t\<rparr>) options =
         resolveDeliveryTarget env cfg agentId (jobPayload\<lparr>jp_to := None\<rparr>) options \<and>
         \<not> hasExplicitTo (jobPayload\<lparr>jp_to := Some t\<rparr>) \<and>
         directOrigin (jobPayload\<lparr>jp_to := Some t\<rparr>) options =
         directOrigin (jobPayload\<lparr>jp_to := None\<rparr>) options \<and>
         explicitTo (jobPayload\<lparr>jp_to := Some t\<rparr>) options =
         explicitTo (jobPayload\<lparr>jp_to := None\<rparr>) options"
proof -
  have "resolveDeliveryTarget env cfg agentId (jobPayload\<lparr>jp_to := Some t\<rparr>) options =
        resolveDeliveryTarget env cfg agentId (jobPayload\<lparr>jp_to := None\<rparr>) options"
    using assms
    by (simp add: resolveDeliveryTarget_def directOrigin_blank resolved_blank
        resolvedChannel_blank resolvedAccountId_blank Let_def cong: if_cong option.case_cong)
  moreover have "\<not> hasExplicitTo (jobPayload\<lparr>jp_to := Some t\<rparr>)"
    using assms by (simp add: hasExplicitTo_def)
  ultimately show ?thesis
    using assms by (simp add: directOrigin_blank explicitTo_blank)
qed

text \<open>A payload with \<open>to\<close> a single space and the telegram origin: the short-circuit is
  taken and the message goes to 123.\<close>

theorem whitespace_to_is_absent_witness:
  "trim '' '' = [] \<and>
   resolveDeliveryTarget (exampleCollaborators feishuStore (Inr ''discord'')) () ''main''
     ((payload None None)\<lparr>jp_to := Some '' ''\<rparr>) (fromOrigin telegramOrigin) =
   resolveDeliveryTarget (exampleCollaborators feishuStore (Inr ''discord'')) () ''main''
     ((payload None None)\<lparr>jp_to := None\<rparr>) (fromOrigin telegramOrigin) \<and>
   dt_to (resolveDeliveryTarget (exampleCollaborators feishuStore (Inr ''discord'')) () ''main''
     ((payload None None)\<lparr>jp_to := Some '' ''\<rparr>) (fromOrigin telegramOrigin)) = Some ''123''"
  using whitespace_to_is_absent [where t = "'' ''" and jobPayload = "payload None None"
      and options = "fromOrigin telegramOrigin"
      and env = "exampleCollaborators feishuStore (Inr ''discord'')"
      and cfg = "()" and agentId = "''main''"]
  by (simp add: resolver_defs example_defs trim_examples Let_def)

end
